theory Spec2Isabelle
  imports Main "HOL-Library.Word" "HOL-Library.Multiset"
begin

unbundle bit_operations_syntax

section \<open>Bytes, hex strings and errors\<close>

text \<open>
  Go strings and byte slices are sequences of 8-bit bytes. A \<open>string\<close> of HOL is a list
  of 8-bit characters, a byte slice is a list of 8-bit words.
\<close>

type_synonym byte = "8 word"
type_synonym bytes = "byte list"

text \<open>
  The two failures of Go's \<open>hex.DecodeString\<close>: an odd number of digits, and a byte that
  is no hex digit (the error carries that byte).
\<close>

datatype hex_error = ErrLength | InvalidByteError char

text \<open>
  The error variables of the \<open>api/errors\<close> and \<open>process\<close> packages that the source under
  study refers to. Their texts are declared outside the files at hand, so a variable is
  kept as a symbol.
\<close>

datatype base_error =
    ErrInvalidAppContext
  | ErrGetValueForKey
  | ErrEmptyAddress
  | ErrEmptyKey
  | ErrInvalidSenderAddress
  | ErrInvalidReceiverAddress
  | ErrInvalidSignatureHex
  | ErrSendingRequest
  | ErrNoValidTransactionToSend
  | ErrMissingObserver
  | ErrCannotGetTransactionStatus
  | ErrAuctionListNotAvailable

text \<open>
  An error value of the program. \<open>External\<close> is an error made outside the code at hand
  (by the address codec, the shard router, the HTTP client, the JSON binding or the facade),
  given by its message. \<open>InvalidTxFields\<close> is the struct \<open>errors.ErrInvalidTxFields\<close> with its
  \<open>Message\<close> (the text of an error variable) and its \<open>Reason\<close> (the text of the cause).
  \<open>NotValidHexString\<close> is the error the vm-values handler builds with
  \<open>errors.New(fmt.Sprintf("'%s' is not a valid hex string: %s", arg, err.Error()))\<close>.
\<close>

datatype error =
    Base base_error
  | HexError hex_error
  | External string
  | InvalidTxFields base_error error
  | NotValidHexString string hex_error

text \<open>
  \<open>err.Error()\<close>. The texts of the error variables and of the standard library's hex
  errors are a parameter \<open>T\<close>; the texts the code composes itself are written out.
  The \<open>Error()\<close> method of \<open>ErrInvalidTxFields\<close> is outside the files at hand and is left
  to \<open>T\<close> as well.
\<close>

fun errorText :: "(error \<Rightarrow> string) \<Rightarrow> error \<Rightarrow> string" where
  "errorText T (External m) = m"
| "errorText T (NotValidHexString arg e) =
     [CHR 0x27] @ arg @ [CHR 0x27] @ '' is not a valid hex string: '' @ T (HexError e)"
| "errorText T e = T e"

subsection \<open>\<open>hex.DecodeString\<close>\<close>

text \<open>
  The standard library's \<open>fromHexChar\<close>: the value of a hex digit, or nothing for any
  other byte.
\<close>

definition fromHexChar :: "char \<Rightarrow> byte option" where
  "fromHexChar c =
     (let n = (of_char c :: nat) in
      if 48 \<le> n \<and> n \<le> 57 then Some (of_nat (n - 48))
      else if 97 \<le> n \<and> n \<le> 102 then Some (of_nat (n - 97 + 10))
      else if 65 \<le> n \<and> n \<le> 70 then Some (of_nat (n - 65 + 10))
      else None)"

text \<open>
  \<open>hex.DecodeString\<close> reads the digits in pairs. The first byte that is no hex digit
  stops it with \<open>InvalidByteError\<close>; a single valid digit left over at the end is
  \<open>ErrLength\<close>.
\<close>

fun DecodeString :: "string \<Rightarrow> hex_error + bytes" where
  "DecodeString [] = Inr []"
| "DecodeString [p] =
     (case fromHexChar p of None \<Rightarrow> Inl (InvalidByteError p) | Some a \<Rightarrow> Inl ErrLength)"
| "DecodeString (p # q # rest) =
     (case fromHexChar p of
        None \<Rightarrow> Inl (InvalidByteError p)
      | Some a \<Rightarrow>
          (case fromHexChar q of
             None \<Rightarrow> Inl (InvalidByteError q)
           | Some b \<Rightarrow>
               (case DecodeString rest of
                  Inl e \<Rightarrow> Inl e
                | Inr bs \<Rightarrow> Inr ((push_bit 4 a OR b) # bs))))"

text \<open>
  \<open>hex.EncodeToString\<close>: two digits of the table \<open>0123456789abcdef\<close> for each byte, the
  high half first.
\<close>

definition hexDigit :: "nat \<Rightarrow> char" where
  "hexDigit n = ''0123456789abcdef'' ! n"

fun EncodeToString :: "bytes \<Rightarrow> string" where
  "EncodeToString [] = []"
| "EncodeToString (b # bs) =
     hexDigit (unat b div 16) # hexDigit (unat b mod 16) # EncodeToString bs"

section \<open>The HTTP handlers\<close>

text \<open>
  What a handler needs of a \<open>gin.Context\<close>: the values stored under string keys (read with
  \<open>c.MustGet\<close> and then type-asserted to the facade interface), the path parameters
  (\<open>c.Param\<close>, the empty string for a parameter that is not there) and the result of binding
  the JSON body (\<open>c.ShouldBindJSON\<close>).
\<close>

datatype 'f ctx_value = KeyMissing | WrongType | Handler 'f

record ('f, 'b) gin_context =
  Keys :: "string \<Rightarrow> 'f ctx_value"
  Param :: "string \<Rightarrow> string"
  ShouldBindJSON :: "error + 'b"

text \<open>
  What a handler does with the context: \<open>c.JSON(status, gin.H{key: text})\<close>, or a panic
  (\<open>MustGet\<close> on a key that is not set).
\<close>

datatype outcome = Panicked | JSON int string string

abbreviation StatusOK :: int where "StatusOK \<equiv> 200"
abbreviation StatusBadRequest :: int where "StatusBadRequest \<equiv> 400"
abbreviation StatusNotFound :: int where "StatusNotFound \<equiv> 404"
abbreviation StatusRequestTimeout :: int where "StatusRequestTimeout \<equiv> 408"
abbreviation StatusInternalServerError :: int where "StatusInternalServerError \<equiv> 500"

subsection \<open>vm-values\<close>

record VmValueRequest =
  ScAddress :: string
  FuncName :: string
  Args :: "string list"

text \<open>
  The facade of the vm-values routes: \<open>GetVmValue(resType, address, funcName, argsBuff...)\<close>.
  A call made on it is recorded as the tuple of its arguments.
\<close>

type_synonym vm_call = "string \<times> string \<times> string \<times> bytes list"

record vm_facade =
  GetVmValue :: "string \<Rightarrow> string \<Rightarrow> string \<Rightarrow> bytes list \<Rightarrow> error + bytes"

text \<open>
  The loop of \<open>vmValueFromAccount\<close> over \<open>gval.Args\<close>: every argument is decoded from hex and
  appended to \<open>argsBuff\<close>; the first one that fails ends the loop with that argument and the
  decoder's error.
\<close>

fun decodeArgs :: "string list \<Rightarrow> bytes list \<Rightarrow> (string \<times> hex_error) + bytes list" where
  "decodeArgs [] argsBuff = Inr argsBuff"
| "decodeArgs (arg # args) argsBuff =
     (case DecodeString arg of
        Inl err \<Rightarrow> Inl (arg, err)
      | Inr buff \<Rightarrow> decodeArgs args (argsBuff @ [buff]))"

text \<open>
  \<open>vmValueFromAccount\<close> returns \<open>([]byte, int, error)\<close>; the model returns that triple
  (no error is \<open>None\<close>, a nil slice is the empty list) together with the calls made on the
  facade, or nothing when \<open>MustGet\<close> panics.
\<close>

definition vmValueFromAccount ::
  "(vm_facade, VmValueRequest) gin_context \<Rightarrow> string
     \<Rightarrow> ((bytes \<times> int \<times> error option) \<times> vm_call list) option" where
  "vmValueFromAccount c resType =
     (case Keys c ''elrondProxyFacade'' of
        KeyMissing \<Rightarrow> None
      | WrongType \<Rightarrow> Some (([], StatusInternalServerError, Some (Base ErrInvalidAppContext)), [])
      | Handler ef \<Rightarrow>
          (case ShouldBindJSON c of
             Inl err \<Rightarrow> Some (([], StatusBadRequest, Some err), [])
           | Inr gval \<Rightarrow>
               (case decodeArgs (Args gval) [] of
                  Inl (arg, err) \<Rightarrow>
                    Some (([], StatusBadRequest, Some (NotValidHexString arg err)), [])
                | Inr argsBuff \<Rightarrow>
                    (case GetVmValue ef resType (ScAddress gval) (FuncName gval) argsBuff of
                       Inl err \<Rightarrow>
                         Some (([], StatusBadRequest, Some err),
                               [(resType, ScAddress gval, FuncName gval, argsBuff)])
                     | Inr returnedData \<Rightarrow>
                         Some ((returnedData, StatusOK, None),
                               [(resType, ScAddress gval, FuncName gval, argsBuff)])))))"

text \<open>
  \<open>big.NewInt(0).SetString(s, 10)\<close> followed by \<open>value.String()\<close>: an optional sign and at
  least one decimal digit, printed back without a plus sign and without leading zeros.
\<close>

definition isDigit :: "char \<Rightarrow> bool" where
  "isDigit c = (48 \<le> (of_char c :: nat) \<and> (of_char c :: nat) \<le> 57)"

fun digitsValue :: "nat \<Rightarrow> string \<Rightarrow> nat" where
  "digitsValue acc [] = acc"
| "digitsValue acc (c # cs) = digitsValue (10 * acc + ((of_char c :: nat) - 48)) cs"

definition SetString10 :: "string \<Rightarrow> int option" where
  "SetString10 s =
     (let neg = (s \<noteq> [] \<and> hd s = CHR ''-'');
          ds = (if s \<noteq> [] \<and> (hd s = CHR ''-'' \<or> hd s = CHR ''+'') then tl s else s)
      in if ds = [] \<or> \<not> list_all isDigit ds then None
         else Some (if neg then - int (digitsValue 0 ds) else int (digitsValue 0 ds)))"

function natString :: "nat \<Rightarrow> string" where
  "natString n = (if n < 10 then [char_of (48 + n)] else natString (n div 10) @ [char_of (48 + n mod 10)])"
  by pat_completeness auto
termination
  by (relation "measure id") auto

definition intString :: "int \<Rightarrow> string" where
  "intString i = (if i < 0 then CHR ''-'' # natString (nat (- i)) else natString (nat i))"

text \<open>\<open>string(data)\<close>: the bytes of the slice as a string.\<close>

definition bytesToString :: "bytes \<Rightarrow> string" where
  "bytesToString bs = map (\<lambda>b. char_of (unat b)) bs"

text \<open>
  The three routes. Each returns the response written and the calls made on the facade.
\<close>

definition GetVmValueAsHexBytes ::
  "(error \<Rightarrow> string) \<Rightarrow> (vm_facade, VmValueRequest) gin_context \<Rightarrow> outcome \<times> vm_call list" where
  "GetVmValueAsHexBytes T c =
     (case vmValueFromAccount c ''hex'' of
        None \<Rightarrow> (Panicked, [])
      | Some ((data, status, Some err), calls) \<Rightarrow>
          (JSON status ''error'' (''get vm value as hex bytes: '' @ errorText T err), calls)
      | Some ((data, status, None), calls) \<Rightarrow>
          (JSON StatusOK ''data'' (EncodeToString data), calls))"

definition GetVmValueAsString ::
  "(error \<Rightarrow> string) \<Rightarrow> (vm_facade, VmValueRequest) gin_context \<Rightarrow> outcome \<times> vm_call list" where
  "GetVmValueAsString T c =
     (case vmValueFromAccount c ''string'' of
        None \<Rightarrow> (Panicked, [])
      | Some ((data, status, Some err), calls) \<Rightarrow>
          (JSON status ''error'' (''get vm value as string: '' @ errorText T err), calls)
      | Some ((data, status, None), calls) \<Rightarrow>
          (JSON StatusOK ''data'' (bytesToString data), calls))"

definition GetVmValueAsBigInt ::
  "(error \<Rightarrow> string) \<Rightarrow> (vm_facade, VmValueRequest) gin_context \<Rightarrow> outcome \<times> vm_call list" where
  "GetVmValueAsBigInt T c =
     (case vmValueFromAccount c ''int'' of
        None \<Rightarrow> (Panicked, [])
      | Some ((data, status, Some err), calls) \<Rightarrow>
          (JSON status ''error'' (''get vm value as big int: '' @ errorText T err), calls)
      | Some ((data, status, None), calls) \<Rightarrow>
          (case SetString10 (bytesToString data) of
             None \<Rightarrow>
               (JSON status ''error''
                  (''value '' @ bytesToString data @ '' could not be converted to a big int''),
                calls)
           | Some v \<Rightarrow> (JSON StatusOK ''data'' (intString v), calls)))"

text \<open>A request of the vm-values routes whose second argument is no hex string.\<close>

definition vmContextExample :: "(vm_facade, VmValueRequest) gin_context" where
  "vmContextExample =
     \<lparr>Keys = (\<lambda>k. Handler \<lparr>GetVmValue = (\<lambda>r a f bs. Inr [])\<rparr>),
      Param = (\<lambda>p. ''''),
      ShouldBindJSON =
        Inr \<lparr>ScAddress = ''sc'', FuncName = ''get'', Args = [''0a'', ''zz'', ''1'']\<rparr>\<rparr>"

subsection \<open>address\<close>

text \<open>
  The facade of the address routes, as far as \<open>GetValueForKey\<close> uses it. A call made on it is
  recorded as the pair of its arguments.
\<close>

type_synonym key_call = "string \<times> string"

record address_facade =
  FacadeGetValueForKey :: "string \<Rightarrow> string \<Rightarrow> error + string"

text \<open>
  The handler \<open>GetValueForKey\<close>. Its second guard tests \<open>addr\<close> again, as the source does,
  although the response it writes is the one for an empty key.
\<close>

definition GetValueForKey ::
  "(error \<Rightarrow> string) \<Rightarrow> (address_facade, unit) gin_context \<Rightarrow> outcome \<times> key_call list" where
  "GetValueForKey T c =
     (case Keys c ''elrondFacade'' of
        KeyMissing \<Rightarrow> (Panicked, [])
      | WrongType \<Rightarrow>
          (JSON StatusInternalServerError ''error'' (errorText T (Base ErrInvalidAppContext)), [])
      | Handler ef \<Rightarrow>
          (let addr = Param c ''address'' in
           if addr = '''' then
             (JSON StatusBadRequest ''error''
                (errorText T (Base ErrGetValueForKey) @ '': '' @ errorText T (Base ErrEmptyAddress)), [])
           else
             (let key = Param c ''key'' in
              if addr = '''' then
                (JSON StatusBadRequest ''error''
                   (errorText T (Base ErrGetValueForKey) @ '': '' @ errorText T (Base ErrEmptyKey)), [])
              else
                (case FacadeGetValueForKey ef addr key of
                   Inl err \<Rightarrow>
                     (JSON StatusInternalServerError ''error''
                        (errorText T (Base ErrGetValueForKey) @ '': '' @ errorText T err),
                      [(addr, key)])
                 | Inr v \<Rightarrow> (JSON StatusOK ''value'' v, [(addr, key)])))))"

section \<open>The transaction processor\<close>

subsection \<open>Data\<close>

type_synonym shard = "32 word"

text \<open>
  Modelled from the spec: the declaration of \<open>data.Transaction\<close> is not among the files at
  hand. The fields are those of the wire form of a transaction in the data model
  (\<open>nonce, value, sender, receiver, gasPrice, gasLimit, data, signature, chainID, version\<close>),
  under the names the code and its tests use.
\<close>

record Transaction =
  Nonce :: "64 word"
  Value :: string
  Receiver :: string
  Sender :: string
  GasPrice :: "64 word"
  GasLimit :: "64 word"
  Data :: string
  Signature :: string
  ChainID :: string
  Version :: "32 word"

text \<open>An observer of the pool (\<open>data.NodeData\<close> in the tests): its address and its shard.\<close>

record NodeData =
  Address :: string
  ShardId :: shard

text \<open>
  What an observer's reply is decoded into. The code passes a pointer to a zero value of
  \<open>ResponseTransaction\<close>, \<open>ResponseMultiTransactions\<close>, \<open>ResponseTxCost\<close> or \<open>ResponseTxStatus\<close>
  and the caller of the endpoint fills it; the record holds the fields of all four, and
  \<open>TxsHashes\<close>, the map of the reply to \<open>/transaction/send-multiple\<close> from an index of the
  batch to a hash, which the wire format of the observers has.
\<close>

record Response =
  TxHash :: string
  NumOfTxs :: "64 word"
  TxsHashes :: "(int \<times> string) list"
  TxCost :: "64 word"
  Status :: string

datatype post_body = SingleTx Transaction | MultipleTxs "Transaction list"

text \<open>
  The interface \<open>Processor\<close>, as far as the transaction processor uses it. An upstream call
  answers with the HTTP status (for a POST), the transport error if any, and the decoded
  reply.
\<close>

record Processor =
  ComputeShardId :: "bytes \<Rightarrow> error + shard"
  GetObservers :: "shard \<Rightarrow> error + NodeData list"
  GetAllObservers :: "NodeData list"
  CallGetRestEndPoint :: "string \<Rightarrow> string \<Rightarrow> error option \<times> Response"
  CallPostRestEndPoint :: "string \<Rightarrow> string \<Rightarrow> post_body \<Rightarrow> int \<times> error option \<times> Response"

record TransactionProcessor =
  proc :: Processor
  pubKeyConverter :: "string \<Rightarrow> error + bytes"

text \<open>An upstream call, as it is recorded: the observer's address, the path, the body.\<close>

type_synonym post_call = "string \<times> string \<times> post_body"
type_synonym get_call = "string \<times> string"

definition TransactionPath :: string where "TransactionPath = ''/transaction/''"
definition TransactionSendPath :: string where "TransactionSendPath = ''/transaction/send''"
definition MultipleTransactionsPath :: string where
  "MultipleTransactionsPath = ''/transaction/send-multiple''"
definition TransactionCostPath :: string where "TransactionCostPath = ''/transaction/cost''"
definition UnknownStatusTx :: string where "UnknownStatusTx = ''unknown''"

subsection \<open>Field validation\<close>

text \<open>
  \<open>checkTransactionFields\<close>: the sender and the receiver must decode with the address codec
  and the signature must be a hex string. Nothing else is looked at. \<open>None\<close> is \<open>nil\<close>.
\<close>

definition checkTransactionFields :: "TransactionProcessor \<Rightarrow> Transaction \<Rightarrow> error option" where
  "checkTransactionFields tp tx =
     (case pubKeyConverter tp (Sender tx) of
        Inl err \<Rightarrow> Some (InvalidTxFields ErrInvalidSenderAddress err)
      | Inr _ \<Rightarrow>
          (case pubKeyConverter tp (Receiver tx) of
             Inl err \<Rightarrow> Some (InvalidTxFields ErrInvalidReceiverAddress err)
           | Inr _ \<Rightarrow>
               (case DecodeString (Signature tx) of
                  Inl err \<Rightarrow> Some (InvalidTxFields ErrInvalidSignatureHex (HexError err))
                | Inr _ \<Rightarrow> None)))"

subsection \<open>\<open>SendTransaction\<close>\<close>

text \<open>
  The loop of \<open>SendTransaction\<close> over the observers of the sender's shard. It returns the
  triple the function returns, and the POST calls made, in order.
\<close>

fun sendToObservers ::
  "TransactionProcessor \<Rightarrow> Transaction \<Rightarrow> NodeData list
     \<Rightarrow> (int \<times> string \<times> error option) \<times> post_call list" where
  "sendToObservers tp tx [] = ((StatusInternalServerError, '''', Some (Base ErrSendingRequest)), [])"
| "sendToObservers tp tx (observer # observers) =
     (case CallPostRestEndPoint (proc tp) (Address observer) TransactionSendPath (SingleTx tx) of
        (respCode, err, txResponse) \<Rightarrow>
          if respCode = StatusOK \<and> err = None then
            ((respCode, TxHash txResponse, None),
             [(Address observer, TransactionSendPath, SingleTx tx)])
          else if respCode = StatusNotFound \<or> respCode = StatusRequestTimeout then
            (case sendToObservers tp tx observers of
               (r, calls) \<Rightarrow> (r, (Address observer, TransactionSendPath, SingleTx tx) # calls))
          else
            ((respCode, '''', err), [(Address observer, TransactionSendPath, SingleTx tx)]))"

definition SendTransaction ::
  "TransactionProcessor \<Rightarrow> Transaction \<Rightarrow> (int \<times> string \<times> error option) \<times> post_call list" where
  "SendTransaction tp tx =
     (case checkTransactionFields tp tx of
        Some err \<Rightarrow> ((StatusBadRequest, '''', Some err), [])
      | None \<Rightarrow>
          (case pubKeyConverter tp (Sender tx) of
             Inl err \<Rightarrow> ((StatusBadRequest, '''', Some err), [])
           | Inr senderBuff \<Rightarrow>
               (case ComputeShardId (proc tp) senderBuff of
                  Inl err \<Rightarrow> ((StatusInternalServerError, '''', Some err), [])
                | Inr shardId \<Rightarrow>
                    (case GetObservers (proc tp) shardId of
                       Inl err \<Rightarrow> ((StatusInternalServerError, '''', Some err), [])
                     | Inr observers \<Rightarrow> sendToObservers tp tx observers))))"

subsection \<open>\<open>SendMultipleTransactions\<close>\<close>

text \<open>
  A Go map from a shard to a slice is an association list with one entry for each key;
  \<open>m[k] = append(m[k], v)\<close> extends the entry of \<open>k\<close> or adds a new one at the end.
\<close>

fun mapAppend :: "'k \<Rightarrow> 'v \<Rightarrow> ('k \<times> 'v list) list \<Rightarrow> ('k \<times> 'v list) list" where
  "mapAppend k v [] = [(k, [v])]"
| "mapAppend k v ((k', vs) # m) =
     (if k' = k then (k', vs @ [v]) # m else (k', vs) # mapAppend k v m)"

text \<open>
  \<open>getTxsByShardId\<close>: a transaction whose sender does not decode, or whose shard cannot
  be computed, is skipped.
\<close>

fun txsByShardLoop ::
  "TransactionProcessor \<Rightarrow> Transaction list \<Rightarrow> (shard \<times> Transaction list) list
     \<Rightarrow> (shard \<times> Transaction list) list" where
  "txsByShardLoop tp [] txsMap = txsMap"
| "txsByShardLoop tp (tx # txs) txsMap =
     (case pubKeyConverter tp (Sender tx) of
        Inl err \<Rightarrow> txsByShardLoop tp txs txsMap
      | Inr senderBytes \<Rightarrow>
          (case ComputeShardId (proc tp) senderBytes of
             Inl err \<Rightarrow> txsByShardLoop tp txs txsMap
           | Inr senderShardId \<Rightarrow> txsByShardLoop tp txs (mapAppend senderShardId tx txsMap)))"

definition getTxsByShardId ::
  "TransactionProcessor \<Rightarrow> Transaction list \<Rightarrow> (shard \<times> Transaction list) list" where
  "getTxsByShardId tp txs = txsByShardLoop tp txs []"

text \<open>The first loop of \<open>SendMultipleTransactions\<close>: the transactions that pass validation.\<close>

fun validTxs :: "TransactionProcessor \<Rightarrow> Transaction list \<Rightarrow> Transaction list" where
  "validTxs tp [] = []"
| "validTxs tp (currentTx # txs) =
     (case checkTransactionFields tp currentTx of
        Some err \<Rightarrow> validTxs tp txs
      | None \<Rightarrow> currentTx # validTxs tp txs)"

text \<open>
  The inner loop: the batch of one shard goes to the observers of the shard in order, up
  to the first one that answers 200 without a transport error. It returns what is added to
  \<open>totalTxsSent\<close> and the calls made.
\<close>

fun sendBatch ::
  "TransactionProcessor \<Rightarrow> Transaction list \<Rightarrow> NodeData list \<Rightarrow> 64 word \<times> post_call list" where
  "sendBatch tp txsInShard [] = (0, [])"
| "sendBatch tp txsInShard (observer # observersInShard) =
     (case CallPostRestEndPoint (proc tp) (Address observer) MultipleTransactionsPath
             (MultipleTxs txsInShard) of
        (respCode, err, txResponse) \<Rightarrow>
          if respCode = StatusOK \<and> err = None then
            (NumOfTxs txResponse,
             [(Address observer, MultipleTransactionsPath, MultipleTxs txsInShard)])
          else
            (case sendBatch tp txsInShard observersInShard of
               (n, calls) \<Rightarrow>
                 (n, (Address observer, MultipleTransactionsPath, MultipleTxs txsInShard) # calls)))"

text \<open>
  The outer loop over the entries of \<open>txsByShardId\<close>, with the running total. Go visits the
  entries of a map in an order it does not specify; the model visits them in the order of
  the list it is given. A shard without observers ends the whole call with
  \<open>ErrMissingObserver\<close>.
\<close>

fun sendShards ::
  "TransactionProcessor \<Rightarrow> (shard \<times> Transaction list) list \<Rightarrow> 64 word
     \<Rightarrow> (64 word \<times> error option) \<times> post_call list" where
  "sendShards tp [] totalTxsSent = ((totalTxsSent, None), [])"
| "sendShards tp ((shardId, txsInShard) # rest) totalTxsSent =
     (case GetObservers (proc tp) shardId of
        Inl err \<Rightarrow> ((0, Some (Base ErrMissingObserver)), [])
      | Inr observersInShard \<Rightarrow>
          (case sendBatch tp txsInShard observersInShard of
             (n, calls) \<Rightarrow>
               (case sendShards tp rest (totalTxsSent + n) of
                  (r, calls') \<Rightarrow> (r, calls @ calls'))))"

definition SendMultipleTransactions ::
  "TransactionProcessor \<Rightarrow> Transaction list \<Rightarrow> (64 word \<times> error option) \<times> post_call list" where
  "SendMultipleTransactions tp txs =
     (let txsToSend = validTxs tp txs in
      if length txsToSend = 0 then ((0, Some (Base ErrNoValidTransactionToSend)), [])
      else sendShards tp (getTxsByShardId tp txsToSend) 0)"

subsection \<open>\<open>TransactionCostRequest\<close>\<close>

text \<open>
  \<open>core.MetachainShardId\<close>, a constant of the node's core package: the largest 32-bit
  value.
\<close>

definition MetachainShardId :: shard where
  "MetachainShardId = 0xFFFFFFFF"

text \<open>
  The loop of \<open>TransactionCostRequest\<close> over all observers but those of the metachain. The
  cost of the reply is printed with \<open>strconv.Itoa(int(txCostResponse.TxCost))\<close>, so it is
  read as a signed 64-bit value.
\<close>

fun costFromObservers ::
  "TransactionProcessor \<Rightarrow> Transaction \<Rightarrow> NodeData list \<Rightarrow> (string \<times> error option) \<times> post_call list" where
  "costFromObservers tp tx [] = (('''', Some (Base ErrSendingRequest)), [])"
| "costFromObservers tp tx (observer # observers) =
     (if ShardId observer = MetachainShardId then costFromObservers tp tx observers
      else
        (case CallPostRestEndPoint (proc tp) (Address observer) TransactionCostPath (SingleTx tx) of
           (respCode, err, txCostResponse) \<Rightarrow>
             if respCode = StatusOK \<and> err = None then
               ((intString (sint (TxCost txCostResponse)), None),
                [(Address observer, TransactionCostPath, SingleTx tx)])
             else if respCode = StatusNotFound \<or> respCode = StatusRequestTimeout then
               (case costFromObservers tp tx observers of
                  (r, calls) \<Rightarrow> (r, (Address observer, TransactionCostPath, SingleTx tx) # calls))
             else
               (('''', err), [(Address observer, TransactionCostPath, SingleTx tx)])))"

definition TransactionCostRequest ::
  "TransactionProcessor \<Rightarrow> Transaction \<Rightarrow> (string \<times> error option) \<times> post_call list" where
  "TransactionCostRequest tp tx =
     (case checkTransactionFields tp tx of
        Some err \<Rightarrow> (('''', Some err), [])
      | None \<Rightarrow> costFromObservers tp tx (GetAllObservers (proc tp)))"

subsection \<open>\<open>GetTransactionStatus\<close>\<close>

text \<open>
  The loop of \<open>GetTransactionStatus\<close> over all observers: an observer that answers without
  an error adds its status to the entry of its shard.
\<close>

fun collectStatuses ::
  "TransactionProcessor \<Rightarrow> string \<Rightarrow> NodeData list \<Rightarrow> (shard \<times> string list) list
     \<Rightarrow> (shard \<times> string list) list \<times> get_call list" where
  "collectStatuses tp txHash [] observersResponses = (observersResponses, [])"
| "collectStatuses tp txHash (observer # observers) observersResponses =
     (case CallGetRestEndPoint (proc tp) (Address observer) (TransactionPath @ txHash @ ''/status'') of
        (err, txStatusResponse) \<Rightarrow>
          (case collectStatuses tp txHash observers
                  (if err \<noteq> None then observersResponses
                   else mapAppend (ShardId observer) (Status txStatusResponse) observersResponses) of
             (m, calls) \<Rightarrow> (m, (Address observer, TransactionPath @ txHash @ ''/status'') # calls)))"

text \<open>The first loop of \<open>parseTxStatusResponses\<close>: only the statuses other than \<open>unknown\<close> are kept.\<close>

fun keepKnown :: "shard \<Rightarrow> string list \<Rightarrow> (shard \<times> string list) list \<Rightarrow> (shard \<times> string list) list" where
  "keepKnown shardID [] okResponses = okResponses"
| "keepKnown shardID (response # responses) okResponses =
     (if response = UnknownStatusTx then keepKnown shardID responses okResponses
      else keepKnown shardID responses (mapAppend shardID response okResponses))"

fun keepKnownAll :: "(shard \<times> string list) list \<Rightarrow> (shard \<times> string list) list \<Rightarrow> (shard \<times> string list) list" where
  "keepKnownAll [] okResponses = okResponses"
| "keepKnownAll ((shardID, responses) # rest) okResponses =
     keepKnownAll rest (keepKnown shardID responses okResponses)"

text \<open>
  \<open>parseTxStatusResponses\<close> returns \<open>(string, error)\<close>. Reading \<open>responses[0]\<close> of an empty
  slice would panic; the model returns \<open>None\<close> there (no entry of \<open>okResponses\<close> is ever
  empty, see \<open>parseTxStatusResponses_returns\<close>).
\<close>

definition parseTxStatusResponses ::
  "(shard \<times> string list) list \<Rightarrow> (string \<times> error option) option" where
  "parseTxStatusResponses allResponses =
     (let okResponses = keepKnownAll allResponses [] in
      if length okResponses > 1 then Some ('''', Some (Base ErrCannotGetTransactionStatus))
      else
        (case okResponses of
           [] \<Rightarrow> Some (UnknownStatusTx, None)
         | (shardID, responses) # rest \<Rightarrow>
             (case responses of
                [] \<Rightarrow> None
              | firstOkResponse # others \<Rightarrow>
                  if list_all (\<lambda>response. firstOkResponse = response) responses
                  then Some (firstOkResponse, None)
                  else Some ('''', Some (Base ErrCannotGetTransactionStatus)))))"

definition GetTransactionStatus ::
  "TransactionProcessor \<Rightarrow> string \<Rightarrow> (string \<times> error option) option \<times> get_call list" where
  "GetTransactionStatus tp txHash =
     (case collectStatuses tp txHash (GetAllObservers (proc tp)) [] of
        (observersResponses, calls) \<Rightarrow> (parseTxStatusResponses observersResponses, calls))"

subsection \<open>The decision table of \<open>SendTransaction\<close>\<close>

text \<open>
  The words of the decision table: the reply of an observer to the POST of the
  transaction; a reply is accepted when it is HTTP 200 without a transport error; it is
  skip-class when it is not accepted and its status is 404 or 408.
\<close>

definition sendReply ::
  "TransactionProcessor \<Rightarrow> Transaction \<Rightarrow> NodeData \<Rightarrow> int \<times> error option \<times> Response" where
  "sendReply tp tx observer =
     CallPostRestEndPoint (proc tp) (Address observer) TransactionSendPath (SingleTx tx)"

definition isAccepted :: "TransactionProcessor \<Rightarrow> Transaction \<Rightarrow> NodeData \<Rightarrow> bool" where
  "isAccepted tp tx observer =
     (fst (sendReply tp tx observer) = StatusOK \<and> fst (snd (sendReply tp tx observer)) = None)"

definition isSkipped :: "TransactionProcessor \<Rightarrow> Transaction \<Rightarrow> NodeData \<Rightarrow> bool" where
  "isSkipped tp tx observer =
     (\<not> isAccepted tp tx observer \<and>
      (fst (sendReply tp tx observer) = StatusNotFound \<or>
       fst (sendReply tp tx observer) = StatusRequestTimeout))"

definition sendCall :: "Transaction \<Rightarrow> NodeData \<Rightarrow> post_call" where
  "sendCall tx observer = (Address observer, TransactionSendPath, SingleTx tx)"

subsection \<open>Examples\<close>

text \<open>
  The address codec of the tests (\<open>mock.PubKeyConverterMock\<close>): an address is the hex
  string of its bytes.
\<close>

definition hexConverter :: "string \<Rightarrow> error + bytes" where
  "hexConverter s = (case DecodeString s of Inl e \<Rightarrow> Inl (HexError e) | Inr b \<Rightarrow> Inr b)"

text \<open>The zero value a reply is decoded into.\<close>

definition emptyResponse :: Response where
  "emptyResponse = \<lparr>TxHash = '''', NumOfTxs = 0, TxsHashes = [], TxCost = 0, Status = ''''\<rparr>"

text \<open>
  Scenario S1: shard 0 has the observers \<open>O1\<close>, which answers 404, and \<open>O2\<close>, which answers
  200 with the hash \<open>HASH123\<close>.
\<close>

definition tpSendExample :: TransactionProcessor where
  "tpSendExample =
     \<lparr>proc = \<lparr>ComputeShardId = (\<lambda>b. Inr 0),
              GetObservers = (\<lambda>s. Inr [\<lparr>Address = ''O1'', ShardId = 0\<rparr>,
                                         \<lparr>Address = ''O2'', ShardId = 0\<rparr>]),
              GetAllObservers = [\<lparr>Address = ''O1'', ShardId = 0\<rparr>, \<lparr>Address = ''O2'', ShardId = 0\<rparr>],
              CallGetRestEndPoint = (\<lambda>a p. (None, emptyResponse)),
              CallPostRestEndPoint = (\<lambda>a p b.
                 if a = ''O1'' then (StatusNotFound, Some (External ''down''), emptyResponse)
                 else (StatusOK, None, emptyResponse\<lparr>TxHash := ''HASH123''\<rparr>))\<rparr>,
      pubKeyConverter = hexConverter\<rparr>"

definition txExample :: Transaction where
  "txExample = \<lparr>Nonce = 0, Value = ''0'', Receiver = '''', Sender = ''DEADBEEF'', GasPrice = 0,
     GasLimit = 0, Data = '''', Signature = '''', ChainID = ''chain'', Version = 1\<rparr>"

text \<open>
  The transaction of scenario S1 without a chain identifier and with version 0.
\<close>

definition txNoChainID :: Transaction where
  "txNoChainID = txExample\<lparr>ChainID := '''', Version := 0\<rparr>"

text \<open>
  Scenario S3, the test \<open>SendMultipleTransactionsShouldWorkAndSendTxsByShard\<close>: the sender
  \<open>bbbbbb\<close> is of shard 0 and \<open>cccccc\<close> of shard 1; shard 0 has the observer \<open>observer0\<close>, any
  other shard \<open>observer1\<close>; each observer accepts two transactions and answers with their
  hashes.
\<close>

definition tpMultiExample :: TransactionProcessor where
  "tpMultiExample =
     \<lparr>proc = \<lparr>ComputeShardId = (\<lambda>b.
                 if EncodeToString b = ''626262626262'' then Inr 0
                 else if EncodeToString b = ''636363636363'' then Inr 1
                 else Inr 0),
              GetObservers = (\<lambda>s.
                 if s = 0 then Inr [\<lparr>Address = ''observer0'', ShardId = 0\<rparr>]
                 else Inr [\<lparr>Address = ''observer1'', ShardId = 0\<rparr>]),
              GetAllObservers = [],
              CallGetRestEndPoint = (\<lambda>a p. (None, emptyResponse)),
              CallPostRestEndPoint = (\<lambda>a p b.
                 if a = ''observer0''
                 then (StatusOK, None,
                       emptyResponse\<lparr>NumOfTxs := 2, TxsHashes := [(0, ''hash0''), (1, ''hash1'')]\<rparr>)
                 else (StatusOK, None,
                       emptyResponse\<lparr>NumOfTxs := 2, TxsHashes := [(0, ''hash2''), (1, ''hash3'')]\<rparr>))\<rparr>,
      pubKeyConverter = hexConverter\<rparr>"

definition txShard0 :: Transaction where
  "txShard0 = \<lparr>Nonce = 0, Value = '''', Receiver = ''aaaaaa'', Sender = ''626262626262'',
     GasPrice = 0, GasLimit = 0, Data = '''', Signature = '''', ChainID = ''chain'', Version = 1\<rparr>"

definition txShard1 :: Transaction where
  "txShard1 = txShard0\<lparr>Sender := ''636363636363''\<rparr>"

text \<open>
  The same processor with a shard router that fails for the sender \<open>cccccc\<close>.
\<close>

definition tpRouterFails :: TransactionProcessor where
  "tpRouterFails =
     tpMultiExample\<lparr>proc := (proc tpMultiExample)\<lparr>ComputeShardId := (\<lambda>b.
        if EncodeToString b = ''636363636363'' then Inl (External ''no shard'') else Inr 0)\<rparr>\<rparr>"

subsection \<open>Transactions that cannot be routed\<close>

text \<open>
  A transaction is left out of the partition when its sender does not decode or the shard
  of the sender cannot be computed.
\<close>

definition unroutable :: "TransactionProcessor \<Rightarrow> Transaction \<Rightarrow> bool" where
  "unroutable tp tx =
     (case pubKeyConverter tp (Sender tx) of
        Inl err \<Rightarrow> True
      | Inr senderBytes \<Rightarrow> isl (ComputeShardId (proc tp) senderBytes))"

text \<open>The transactions a POST call carries.\<close>

fun bodyTxs :: "post_body \<Rightarrow> Transaction list" where
  "bodyTxs (SingleTx tx) = [tx]"
| "bodyTxs (MultipleTxs txs) = txs"

definition callTxs :: "post_call \<Rightarrow> Transaction list" where
  "callTxs call = bodyTxs (snd (snd call))"

subsection \<open>The statuses that reach the reconciliation\<close>

text \<open>
  The observers that answer the status query without an error, each with its shard and the
  status it reports, in the order of the pool; and those among them whose status is not
  \<open>unknown\<close>.
\<close>

fun respondedStatuses :: "TransactionProcessor \<Rightarrow> string \<Rightarrow> NodeData list \<Rightarrow> (shard \<times> string) list" where
  "respondedStatuses tp txHash [] = []"
| "respondedStatuses tp txHash (observer # observers) =
     (case CallGetRestEndPoint (proc tp) (Address observer) (TransactionPath @ txHash @ ''/status'') of
        (err, txStatusResponse) \<Rightarrow>
          if err \<noteq> None then respondedStatuses tp txHash observers
          else (ShardId observer, Status txStatusResponse) # respondedStatuses tp txHash observers)"

definition knownStatuses :: "TransactionProcessor \<Rightarrow> string \<Rightarrow> (shard \<times> string) list" where
  "knownStatuses tp txHash =
     filter (\<lambda>r. snd r \<noteq> UnknownStatusTx) (respondedStatuses tp txHash (GetAllObservers (proc tp)))"

text \<open>
  Two shards with one observer each; both observers report the status \<open>executed\<close>.
\<close>

definition tpStatusAgree :: TransactionProcessor where
  "tpStatusAgree =
     \<lparr>proc = \<lparr>ComputeShardId = (\<lambda>b. Inr 0),
              GetObservers = (\<lambda>s. Inr []),
              GetAllObservers = [\<lparr>Address = ''observer0'', ShardId = 0\<rparr>,
                                 \<lparr>Address = ''observer1'', ShardId = 1\<rparr>],
              CallGetRestEndPoint = (\<lambda>a p. (None, emptyResponse\<lparr>Status := ''executed''\<rparr>)),
              CallPostRestEndPoint = (\<lambda>a p b. (StatusOK, None, emptyResponse))\<rparr>,
      pubKeyConverter = hexConverter\<rparr>"

text \<open>Lookup in a map from a shard to a slice; a key that is not there has the nil slice.\<close>

definition look :: "('k \<times> 'v list) list \<Rightarrow> 'k \<Rightarrow> 'v list" where
  "look m k = (case map_of m k of None \<Rightarrow> [] | Some vs \<Rightarrow> vs)"

text \<open>
  The shape every map built with \<open>append\<close> has: one entry for each key, no entry with an
  empty slice.
\<close>

definition wellFormed :: "('k \<times> 'v list) list \<Rightarrow> bool" where
  "wellFormed m = (distinct (map fst m) \<and> [] \<notin> snd ` set m)"

section \<open>Merging the contract results of two shards\<close>

text \<open>
  Modelled from the spec: the declaration of the smart-contract result
  (\<open>transaction.ApiSmartContractResult\<close>) is not among the files at hand. The fields are
  those of the data model (\<open>hash, nonce, value, sender, receiver, data, originalTxHash,
  prevTxHash, callType\<close>) and the return message the outcome parser reads.
\<close>

record ApiSmartContractResult =
  scrHash :: string
  scrNonce :: "64 word"
  scrValue :: string
  scrSender :: string
  scrReceiver :: string
  scrData :: string
  scrOriginalTxHash :: string
  scrPrevTxHash :: string
  scrCallType :: string
  scrReturnMessage :: string

text \<open>
  Modelled from the spec: the merge of the contract results of a cross-shard transaction
  in \<open>GetTransaction\<close> with results is not among the files at hand (only its test
  \<open>GetTransactionWithEventsFirstFromDstShardAndAfterSource\<close> is). The spec: "Merge the two
  \<open>ScResults\<close> sequences by \<open>hash\<close> (union; deduplicate on equal hash)", and "identity is
  \<open>hash\<close>; two results with equal \<open>hash\<close> are considered identical and deduplicated on
  merge". A result is added to the merged sequence unless a result with its hash is there
  already.
\<close>

definition addScResult ::
  "ApiSmartContractResult list \<Rightarrow> ApiSmartContractResult \<Rightarrow> ApiSmartContractResult list" where
  "addScResult merged r = (if scrHash r \<in> set (map scrHash merged) then merged else merged @ [r])"

definition mergeScResults ::
  "ApiSmartContractResult list \<Rightarrow> ApiSmartContractResult list \<Rightarrow> ApiSmartContractResult list" where
  "mergeScResults first second = foldl addScResult [] (first @ second)"

text \<open>A contract result with a given hash and nothing else.\<close>

definition scrWithHash :: "string \<Rightarrow> ApiSmartContractResult" where
  "scrWithHash h =
     \<lparr>scrHash = h, scrNonce = 0, scrValue = '''', scrSender = '''', scrReceiver = '''',
      scrData = '''', scrOriginalTxHash = '''', scrPrevTxHash = '''', scrCallType = '''',
      scrReturnMessage = ''''\<rparr>"

section \<open>The mempool views\<close>

text \<open>
  Modelled from the spec: the mempool entry points of the transaction processor
  (\<open>GetTransactionsPool\<close>, \<open>GetTransactionsPoolForShard\<close>, \<open>GetTransactionsPoolForSender\<close>,
  \<open>GetLastPoolNonceForSender\<close>, \<open>GetTransactionsPoolNonceGapsForSender\<close>) are not among the
  files at hand (only their tests are). What follows is section 4.E.9 of the spec with the
  paths of section 6: the capabilities the processor holds (the feature flag, the shards
  and observers of the pool, the shard router, the address codec, the upstream GET), the
  reply shapes, and the five entry points, each returning its result and the upstream
  calls made.
\<close>

datatype mempool_error =
    OperationNotAllowed
  | TransactionsNotFoundInPool
  | NonceGapsNotFoundInPool
  | InvalidSender error
  | NoObserversForShard error
  | SendingRequest

type_synonym WrappedTransaction = "(string \<times> string) list"

record TransactionsPool =
  RegularTransactions :: "WrappedTransaction list"
  SmartContractResults :: "WrappedTransaction list"
  Rewards :: "WrappedTransaction list"

record PoolReply =
  replyPool :: TransactionsPool
  replySenderTxs :: "WrappedTransaction list"
  replyNonce :: "64 word"
  replyGaps :: "(64 word \<times> 64 word) list"

record MempoolProcessor =
  mempoolApiEnabled :: bool
  poolShardIDs :: "shard list"
  poolObservers :: "shard \<Rightarrow> error + NodeData list"
  routerComputeShardId :: "bytes \<Rightarrow> error + shard"
  codecDecode :: "string \<Rightarrow> error + bytes"
  upstreamGet :: "string \<Rightarrow> string \<Rightarrow> int \<times> error option \<times> PoolReply"

definition emptyPool :: TransactionsPool where
  "emptyPool = \<lparr>RegularTransactions = [], SmartContractResults = [], Rewards = []\<rparr>"

definition isEmptyPool :: "TransactionsPool \<Rightarrow> bool" where
  "isEmptyPool p = (RegularTransactions p = [] \<and> SmartContractResults p = [] \<and> Rewards p = [])"

definition concatPools :: "TransactionsPool \<Rightarrow> TransactionsPool \<Rightarrow> TransactionsPool" where
  "concatPools p q =
     \<lparr>RegularTransactions = RegularTransactions p @ RegularTransactions q,
      SmartContractResults = SmartContractResults p @ SmartContractResults q,
      Rewards = Rewards p @ Rewards q\<rparr>"

definition poolPath :: "string \<Rightarrow> string" where
  "poolPath fieldNames = ''/transaction/pool?fields='' @ fieldNames"

definition poolBySenderPath :: "string \<Rightarrow> string \<Rightarrow> string" where
  "poolBySenderPath sender fieldNames = ''/transaction/pool?by-sender='' @ sender @ ''&fields='' @ fieldNames"

definition lastNoncePath :: "string \<Rightarrow> string" where
  "lastNoncePath sender = ''/transaction/pool/last-nonce?by-sender='' @ sender"

definition nonceGapsPath :: "string \<Rightarrow> string" where
  "nonceGapsPath sender = ''/transaction/pool/nonce-gaps?by-sender='' @ sender"

text \<open>
  The first observer of a list that answers the path with HTTP 200 and no transport error,
  with the calls made up to it; nothing when none does.
\<close>

fun firstReply ::
  "MempoolProcessor \<Rightarrow> string \<Rightarrow> NodeData list \<Rightarrow> PoolReply option \<times> get_call list" where
  "firstReply mp path [] = (None, [])"
| "firstReply mp path (observer # observers) =
     (case upstreamGet mp (Address observer) path of
        (status, err, reply) \<Rightarrow>
          if status = StatusOK \<and> err = None then (Some reply, [(Address observer, path)])
          else (case firstReply mp path observers of
                  (r, calls) \<Rightarrow> (r, (Address observer, path) # calls)))"

text \<open>
  The first observer of a list that answers with a pool that is not empty.
\<close>

fun firstNonEmptyPool ::
  "MempoolProcessor \<Rightarrow> string \<Rightarrow> NodeData list \<Rightarrow> TransactionsPool option \<times> get_call list" where
  "firstNonEmptyPool mp path [] = (None, [])"
| "firstNonEmptyPool mp path (observer # observers) =
     (case upstreamGet mp (Address observer) path of
        (status, err, reply) \<Rightarrow>
          if status = StatusOK \<and> err = None \<and> \<not> isEmptyPool (replyPool reply)
          then (Some (replyPool reply), [(Address observer, path)])
          else (case firstNonEmptyPool mp path observers of
                  (r, calls) \<Rightarrow> (r, (Address observer, path) # calls)))"

text \<open>
  The fan-out of \<open>GetTransactionsPool\<close>: one observer for each shard (the first of the shard
  that answers), the three sequences of the replies concatenated. The spec lets an
  implementation serialise the fan-out; the model visits the shards in the order of
  \<open>shardIDs()\<close>. A shard without an answer adds nothing.
\<close>

fun poolOfShards ::
  "MempoolProcessor \<Rightarrow> string \<Rightarrow> shard list \<Rightarrow> TransactionsPool \<times> get_call list" where
  "poolOfShards mp path [] = (emptyPool, [])"
| "poolOfShards mp path (shardID # shardIDs) =
     (case (case poolObservers mp shardID of
              Inl err \<Rightarrow> (None, [])
            | Inr observers \<Rightarrow> firstReply mp path observers) of
        (r, calls) \<Rightarrow>
          (case poolOfShards mp path shardIDs of
             (pool, calls') \<Rightarrow>
               (concatPools (case r of None \<Rightarrow> emptyPool | Some reply \<Rightarrow> replyPool reply) pool,
                calls @ calls')))"

definition GetTransactionsPool ::
  "MempoolProcessor \<Rightarrow> string \<Rightarrow> (mempool_error + TransactionsPool) \<times> get_call list" where
  "GetTransactionsPool mp fieldNames =
     (if \<not> mempoolApiEnabled mp then (Inl OperationNotAllowed, [])
      else (case poolOfShards mp (poolPath fieldNames) (poolShardIDs mp) of
              (pool, calls) \<Rightarrow>
                (if isEmptyPool pool then Inl TransactionsNotFoundInPool else Inr pool, calls)))"

definition GetTransactionsPoolForShard ::
  "MempoolProcessor \<Rightarrow> shard \<Rightarrow> string \<Rightarrow> (mempool_error + TransactionsPool) \<times> get_call list" where
  "GetTransactionsPoolForShard mp shardID fieldNames =
     (if \<not> mempoolApiEnabled mp then (Inl OperationNotAllowed, [])
      else (case poolObservers mp shardID of
              Inl err \<Rightarrow> (Inl (NoObserversForShard err), [])
            | Inr observers \<Rightarrow>
                (case firstNonEmptyPool mp (poolPath fieldNames) observers of
                   (None, calls) \<Rightarrow> (Inl TransactionsNotFoundInPool, calls)
                 | (Some pool, calls) \<Rightarrow> (Inr pool, calls))))"

text \<open>
  The three views by sender resolve the shard of the sender with the router and query the
  observers of that shard. When no observer of the shard answers, the error is the one of
  the taxonomy for exhausted observers, \<open>SendingRequest\<close>.
\<close>

definition observersOfSender :: "MempoolProcessor \<Rightarrow> string \<Rightarrow> mempool_error + NodeData list" where
  "observersOfSender mp sender =
     (case codecDecode mp sender of
        Inl err \<Rightarrow> Inl (InvalidSender err)
      | Inr senderBytes \<Rightarrow>
          (case routerComputeShardId mp senderBytes of
             Inl err \<Rightarrow> Inl (InvalidSender err)
           | Inr shardID \<Rightarrow>
               (case poolObservers mp shardID of
                  Inl err \<Rightarrow> Inl (NoObserversForShard err)
                | Inr observers \<Rightarrow> Inr observers)))"

definition GetTransactionsPoolForSender ::
  "MempoolProcessor \<Rightarrow> string \<Rightarrow> string
     \<Rightarrow> (mempool_error + WrappedTransaction list) \<times> get_call list" where
  "GetTransactionsPoolForSender mp sender fieldNames =
     (if \<not> mempoolApiEnabled mp then (Inl OperationNotAllowed, [])
      else (case observersOfSender mp sender of
              Inl err \<Rightarrow> (Inl err, [])
            | Inr observers \<Rightarrow>
                (case firstReply mp (poolBySenderPath sender fieldNames) observers of
                   (None, calls) \<Rightarrow> (Inl SendingRequest, calls)
                 | (Some reply, calls) \<Rightarrow>
                     (if replySenderTxs reply = [] then Inl TransactionsNotFoundInPool
                      else Inr (replySenderTxs reply), calls))))"

definition GetLastPoolNonceForSender ::
  "MempoolProcessor \<Rightarrow> string \<Rightarrow> (mempool_error + 64 word) \<times> get_call list" where
  "GetLastPoolNonceForSender mp sender =
     (if \<not> mempoolApiEnabled mp then (Inl OperationNotAllowed, [])
      else (case observersOfSender mp sender of
              Inl err \<Rightarrow> (Inl err, [])
            | Inr observers \<Rightarrow>
                (case firstReply mp (lastNoncePath sender) observers of
                   (None, calls) \<Rightarrow> (Inl SendingRequest, calls)
                 | (Some reply, calls) \<Rightarrow> (Inr (replyNonce reply), calls))))"

definition GetTransactionsPoolNonceGapsForSender ::
  "MempoolProcessor \<Rightarrow> string \<Rightarrow> (mempool_error + (64 word \<times> 64 word) list) \<times> get_call list" where
  "GetTransactionsPoolNonceGapsForSender mp sender =
     (if \<not> mempoolApiEnabled mp then (Inl OperationNotAllowed, [])
      else (case observersOfSender mp sender of
              Inl err \<Rightarrow> (Inl err, [])
            | Inr observers \<Rightarrow>
                (case firstReply mp (nonceGapsPath sender) observers of
                   (None, calls) \<Rightarrow> (Inl SendingRequest, calls)
                 | (Some reply, calls) \<Rightarrow>
                     (if replyGaps reply = [] then Inl NonceGapsNotFoundInPool
                      else Inr (replyGaps reply), calls))))"

text \<open>
  A processor with two shards, one observer each, whose pools hold a transaction; the
  feature flag is a parameter.
\<close>

definition mempoolExample :: "bool \<Rightarrow> MempoolProcessor" where
  "mempoolExample enabled =
     \<lparr>mempoolApiEnabled = enabled,
      poolShardIDs = [0, 1],
      poolObservers = (\<lambda>s. if s = 0 then Inr [\<lparr>Address = ''observer0'', ShardId = 0\<rparr>]
                            else Inr [\<lparr>Address = ''observer1'', ShardId = 1\<rparr>]),
      routerComputeShardId = (\<lambda>b. Inr 0),
      codecDecode = hexConverter,
      upstreamGet = (\<lambda>a p.
         (StatusOK, None,
          \<lparr>replyPool = \<lparr>RegularTransactions = [[(''hash'', a)]], SmartContractResults = [],
                         Rewards = []\<rparr>,
           replySenderTxs = [[(''hash'', a)]], replyNonce = 7, replyGaps = [(8, 9)]\<rparr>))\<rparr>"

section \<open>The outcome parser\<close>

text \<open>
  Modelled from the spec: the outcome parser (\<open>ParseResultOutcome\<close> of the package
  \<open>resultsParser\<close>) is not among the files at hand (only its test is). What follows is
  section 4.D of the spec: the transaction result the parser reads (contract results, the
  events of the logs, the sender), the outcome, the status-word table, the reading of a
  data field, and the five precedence rules, the first match winning.
\<close>

datatype ReturnCode =
    Ok | FunctionNotFound | FunctionWrongSignature | ContractNotFound | UserError | OutOfGas
  | AccountCollision | OutOfFunds | CallStackOverflow | ContractInvalid | ExecutionFailed
  | Unknown

record Events =
  Identifier :: string
  Topics :: "string list"
  EventData :: string

record ApiTransactionResult =
  ResultScResults :: "ApiSmartContractResult list"
  LogsEvents :: "Events list"
  ResultSender :: string

record Outcome =
  ReturnCode :: ReturnCode
  ReturnMessage :: string
  Values :: "string list"

text \<open>The status-word table, on the text of the decoded first chunk.\<close>

definition returnCodeOf :: "string \<Rightarrow> ReturnCode" where
  "returnCodeOf w =
     (if w = ''ok'' then Ok
      else if w = ''function not found'' then FunctionNotFound
      else if w = ''wrong signature for function'' then FunctionWrongSignature
      else if w = ''contract not found'' then ContractNotFound
      else if w = ''user error'' then UserError
      else if w = ''out of gas'' then OutOfGas
      else if w = ''account collision'' then AccountCollision
      else if w = ''out of funds'' then OutOfFunds
      else if w = ''call stack overflow'' then CallStackOverflow
      else if w = ''contract invalid'' then ContractInvalid
      else if w = ''execution failed'' then ExecutionFailed
      else Unknown)"

text \<open>The pieces of a text between the occurrences of a separator, and the inverse.\<close>

fun splitOn :: "char \<Rightarrow> string \<Rightarrow> string list" where
  "splitOn c [] = [[]]"
| "splitOn c (x # xs) =
     (if x = c then [] # splitOn c xs
      else (case splitOn c xs of [] \<Rightarrow> [[x]] | p # ps \<Rightarrow> (x # p) # ps))"

fun joinWith :: "char \<Rightarrow> string list \<Rightarrow> string" where
  "joinWith c [] = []"
| "joinWith c [p] = p"
| "joinWith c (p # q # ps) = p @ c # joinWith c (q # ps)"

text \<open>
  A data field that begins with \<open>@\<close>: the status token (the first chunk) and the chunks
  after it. Any other data field has no parts.
\<close>

definition dataParts :: "string \<Rightarrow> (string \<times> string list) option" where
  "dataParts d =
     (case d of
        [] \<Rightarrow> None
      | x # rest \<Rightarrow>
          if x = CHR ''@'' then
            (case splitOn CHR ''@'' rest of [] \<Rightarrow> None | token # chunks \<Rightarrow> Some (token, chunks))
          else None)"

definition dataValues :: "string \<Rightarrow> string list" where
  "dataValues d = (case dataParts d of None \<Rightarrow> [] | Some (token, chunks) \<Rightarrow> chunks)"

text \<open>
  A topic is read as base64 first and as raw bytes when that fails; the base64 reading is a
  parameter.
\<close>

definition topicBytes :: "(string \<Rightarrow> string option) \<Rightarrow> string \<Rightarrow> string" where
  "topicBytes b64 topic = (case b64 topic of None \<Rightarrow> topic | Some decoded \<Rightarrow> decoded)"

text \<open>
  Rule 1: the first contract result whose data begins with \<open>@\<close> and a hex-encoded status
  word. The status gives the return code, the chunks after it the values, the result's
  return message the message.
\<close>

definition returnDataOf :: "ApiSmartContractResult \<Rightarrow> Outcome option" where
  "returnDataOf scr =
     (case dataParts (scrData scr) of
        None \<Rightarrow> None
      | Some (token, chunks) \<Rightarrow>
          if token = [] then None
          else (case DecodeString token of
                  Inl err \<Rightarrow> None
                | Inr word \<Rightarrow>
                    Some \<lparr>ReturnCode = returnCodeOf (bytesToString word),
                          ReturnMessage = scrReturnMessage scr,
                          Values = chunks\<rparr>))"

fun onEasilyFoundResultWithReturnData :: "ApiSmartContractResult list \<Rightarrow> Outcome option" where
  "onEasilyFoundResultWithReturnData [] = None"
| "onEasilyFoundResultWithReturnData (scr # scrs) =
     (case returnDataOf scr of
        None \<Rightarrow> onEasilyFoundResultWithReturnData scrs
      | Some outcome \<Rightarrow> Some outcome)"

text \<open>
  Rule 2: the first event with the identifier \<open>signalError\<close>. The return code is
  \<open>UserError\<close> whatever the status token of its data says, its first topic is the message,
  the chunks of its data after the status token are the values.
\<close>

definition onSignalError :: "(string \<Rightarrow> string option) \<Rightarrow> Events list \<Rightarrow> Outcome option" where
  "onSignalError b64 events =
     (case find (\<lambda>e. Identifier e = ''signalError'') events of
        None \<Rightarrow> None
      | Some e \<Rightarrow>
          Some \<lparr>ReturnCode = UserError,
                ReturnMessage = (case Topics e of [] \<Rightarrow> '''' | topic # topics \<Rightarrow> topicBytes b64 topic),
                Values = dataValues (EventData e)\<rparr>)"

text \<open>
  Rule 3: the first \<open>writeLog\<close> event whose first topic is the sender of the transaction.
\<close>

definition firstTopicIs :: "(string \<Rightarrow> string option) \<Rightarrow> string \<Rightarrow> Events \<Rightarrow> bool" where
  "firstTopicIs b64 sender e =
     (case Topics e of [] \<Rightarrow> False | topic # topics \<Rightarrow> topicBytes b64 topic = sender)"

definition onWriteLogWhereFirstTopicEqualsAddress ::
  "(string \<Rightarrow> string option) \<Rightarrow> string \<Rightarrow> Events list \<Rightarrow> Outcome option" where
  "onWriteLogWhereFirstTopicEqualsAddress b64 sender events =
     (case find (\<lambda>e. Identifier e = ''writeLog'' \<and> firstTopicIs b64 sender e) events of
        None \<Rightarrow> None
      | Some e \<Rightarrow>
          Some \<lparr>ReturnCode = Ok, ReturnMessage = '''', Values = dataValues (EventData e)\<rparr>)"

text \<open>
  Rule 4: the first \<open>writeLog\<close> event with a topic that begins with the warning of too much
  gas; that topic is the message.
\<close>

definition tooMuchGasPrefix :: string where
  "tooMuchGasPrefix = ''@too much gas provided for processing''"

definition isTooMuchGasWarning :: "string \<Rightarrow> bool" where
  "isTooMuchGasWarning s = (take (length tooMuchGasPrefix) s = tooMuchGasPrefix)"

definition gasWarningOf :: "(string \<Rightarrow> string option) \<Rightarrow> Events \<Rightarrow> string option" where
  "gasWarningOf b64 e = find isTooMuchGasWarning (map (topicBytes b64) (Topics e))"

definition onTooMuchGasWarning :: "(string \<Rightarrow> string option) \<Rightarrow> Events list \<Rightarrow> Outcome option" where
  "onTooMuchGasWarning b64 events =
     (case find (\<lambda>e. Identifier e = ''writeLog'' \<and> gasWarningOf b64 e \<noteq> None) events of
        None \<Rightarrow> None
      | Some e \<Rightarrow>
          (case gasWarningOf b64 e of
             None \<Rightarrow> None
           | Some warning \<Rightarrow> Some \<lparr>ReturnCode = Ok, ReturnMessage = warning, Values = []\<rparr>))"

text \<open>The parser: the rules in order; no match gives the null outcome.\<close>

definition ParseResultOutcome ::
  "(string \<Rightarrow> string option) \<Rightarrow> ApiTransactionResult \<Rightarrow> Outcome option" where
  "ParseResultOutcome b64 tx =
     (case onEasilyFoundResultWithReturnData (ResultScResults tx) of
        Some outcome \<Rightarrow> Some outcome
      | None \<Rightarrow>
          (case onSignalError b64 (LogsEvents tx) of
             Some outcome \<Rightarrow> Some outcome
           | None \<Rightarrow>
               (case onWriteLogWhereFirstTopicEqualsAddress b64 (ResultSender tx) (LogsEvents tx) of
                  Some outcome \<Rightarrow> Some outcome
                | None \<Rightarrow> onTooMuchGasWarning b64 (LogsEvents tx))))"

text \<open>
  Scenario S8, the test "on signal error": no contract result, one event \<open>signalError\<close>
  with the topic \<open>something happened\<close> and the data \<open>@75736572206572726f72@07\<close>.
\<close>

definition signalErrorEvent :: Events where
  "signalErrorEvent =
     \<lparr>Identifier = ''signalError'', Topics = [''something happened''],
      EventData = ''@75736572206572726f72@07''\<rparr>"

definition signalErrorResult :: ApiTransactionResult where
  "signalErrorResult =
     \<lparr>ResultScResults = [], LogsEvents = [signalErrorEvent], ResultSender = ''''\<rparr>"



section \<open>Properties of the handlers\<close>

subsection \<open>vm-values: an argument that is not hex\<close>

lemma decodeArgs_first_invalid:
  "a \<in> set args \<Longrightarrow> isl (DecodeString a) \<Longrightarrow>
   \<exists>arg e. find (\<lambda>x. isl (DecodeString x)) args = Some arg \<and> DecodeString arg = Inl e
      \<and> decodeArgs args buf = Inl (arg, e)"
proof (induction args arbitrary: buf)
  case Nil
  then show ?case by simp
next
  case (Cons x xs)
  show ?case
  proof (cases "DecodeString x")
    case (Inl e)
    then show ?thesis by simp
  next
    case (Inr b)
    with Cons.prems have "a \<in> set xs" by auto
    from Cons.IH [OF this Cons.prems(2)] Inr show ?thesis by simp
  qed
qed

text \<open>
  C10. The context holds a facade and the body binds to a request. If some string of
  \<open>Args\<close> is not valid hex, then each of the three routes (hex, string, int) answers with
  status 400 and an error text that quotes the first such argument, followed by the
  decoder's error for it, and no call is made on the facade.
\<close>

theorem vm_value_invalid_hex_arg:
  assumes "Keys c ''elrondProxyFacade'' = Handler ef"
    and "ShouldBindJSON c = Inr gval"
    and "a \<in> set (Args gval)"
    and "isl (DecodeString a)"
  shows "\<exists>arg e. find (\<lambda>x. isl (DecodeString x)) (Args gval) = Some arg
           \<and> DecodeString arg = Inl e
           \<and> GetVmValueAsHexBytes T c =
               (JSON StatusBadRequest ''error''
                  (''get vm value as hex bytes: '' @ [CHR 0x27] @ arg @ [CHR 0x27]
                     @ '' is not a valid hex string: '' @ T (HexError e)), [])
           \<and> GetVmValueAsString T c =
               (JSON StatusBadRequest ''error''
                  (''get vm value as string: '' @ [CHR 0x27] @ arg @ [CHR 0x27]
                     @ '' is not a valid hex string: '' @ T (HexError e)), [])
           \<and> GetVmValueAsBigInt T c =
               (JSON StatusBadRequest ''error''
                  (''get vm value as big int: '' @ [CHR 0x27] @ arg @ [CHR 0x27]
                     @ '' is not a valid hex string: '' @ T (HexError e)), [])"
proof -
  from decodeArgs_first_invalid [OF assms(3,4), of "[]"]
  obtain arg e where f: "find (\<lambda>x. isl (DecodeString x)) (Args gval) = Some arg"
    and d: "DecodeString arg = Inl e"
    and l: "decodeArgs (Args gval) [] = Inl (arg, e)"
    by blast
  have v: "\<And>resType. vmValueFromAccount c resType =
      Some (([], StatusBadRequest, Some (NotValidHexString arg e)), [])"
    using assms(1,2) l by (simp add: vmValueFromAccount_def)
  show ?thesis
    using f d
    by (simp add: v GetVmValueAsHexBytes_def GetVmValueAsString_def GetVmValueAsBigInt_def)
qed

text \<open>
  The theorem at a request with the arguments \<open>0a\<close>, \<open>zz\<close> and \<open>1\<close>: the answer names
  \<open>zz\<close>, the first argument that is not hex.
\<close>

theorem vm_value_invalid_hex_arg_witness:
  "GetVmValueAsHexBytes (\<lambda>e. ''E'') vmContextExample =
     (JSON 400 ''error'' ''get vm value as hex bytes: 'zz' is not a valid hex string: E'', [])"
  using vm_value_invalid_hex_arg [of vmContextExample "\<lparr>GetVmValue = (\<lambda>r a f bs. Inr [])\<rparr>"
      "\<lparr>ScAddress = ''sc'', FuncName = ''get'', Args = [''0a'', ''zz'', ''1'']\<rparr>" "''zz''"
      "(\<lambda>e. ''E'')"]
  by (simp add: vmContextExample_def fromHexChar_def)

subsection \<open>address: the value for a key\<close>

text \<open>
  C8. The claim asks for the \<open>EmptyKey\<close> answer (status 400) and no call on the facade when
  the key parameter is empty. At the request with the address \<open>erd1\<close> and an empty key the
  handler calls the facade with the empty key and answers with what the facade gives:
  the guard after reading the key tests the address a second time.
\<close>

theorem GetValueForKey_empty_key_calls_facade:
  "GetValueForKey T
     \<lparr>Keys = (\<lambda>k. Handler \<lparr>FacadeGetValueForKey = (\<lambda>a k. Inr ''value'')\<rparr>),
      Param = (\<lambda>p. if p = ''address'' then ''erd1'' else ''''),
      ShouldBindJSON = Inr ()\<rparr>
   = (JSON StatusOK ''value'' ''value'', [(''erd1'', '''')])"
  by (simp add: GetValueForKey_def)

section \<open>Properties of the transaction processor\<close>

subsection \<open>Sending one transaction\<close>

lemma sendToObservers_decision:
  "sendToObservers tp tx observers =
     (case dropWhile (isSkipped tp tx) observers of
        [] \<Rightarrow> ((StatusInternalServerError, '''', Some (Base ErrSendingRequest)),
               map (sendCall tx) observers)
      | observer # later \<Rightarrow>
          (if isAccepted tp tx observer
           then (StatusOK, TxHash (snd (snd (sendReply tp tx observer))), None)
           else (fst (sendReply tp tx observer), '''', fst (snd (sendReply tp tx observer))),
           map (sendCall tx) (takeWhile (isSkipped tp tx) observers @ [observer])))"
proof (induction observers)
  case Nil
  show ?case by simp
next
  case (Cons ob obs)
  note IH = Cons.IH
  obtain c e r where rep: "CallPostRestEndPoint (proc tp) (Address ob) TransactionSendPath (SingleTx tx) = (c, e, r)"
    by (cases "CallPostRestEndPoint (proc tp) (Address ob) TransactionSendPath (SingleTx tx)") auto
  show ?case
  proof (cases "isSkipped tp tx ob")
    case True
    from True rep have c: "\<not> (c = StatusOK \<and> e = None)" "c = StatusNotFound \<or> c = StatusRequestTimeout"
      by (auto simp: isSkipped_def isAccepted_def sendReply_def)
    have step: "sendToObservers tp tx (ob # obs) =
        (case sendToObservers tp tx obs of (r, calls) \<Rightarrow> (r, sendCall tx ob # calls))"
      using rep c by (auto simp: sendCall_def)
    show ?thesis
    proof (cases "dropWhile (isSkipped tp tx) obs")
      case dw: Nil
      show ?thesis unfolding step IH using True by (simp add: dw)
    next
      case dw: (Cons o1 os)
      show ?thesis unfolding step IH using True by (simp add: dw)
    qed
  next
    case False
    from False rep have c: "(c = StatusOK \<and> e = None) \<or> \<not> (c = StatusNotFound \<or> c = StatusRequestTimeout)"
      by (auto simp: isSkipped_def isAccepted_def sendReply_def)
    have acc: "isAccepted tp tx ob = (c = StatusOK \<and> e = None)"
      using rep by (simp add: isAccepted_def sendReply_def)
    have step: "sendToObservers tp tx (ob # obs) =
        ((if c = StatusOK \<and> e = None then (c, TxHash r, None) else (c, [], e)), [sendCall tx ob])"
      using rep c by (auto simp: sendCall_def)
    show ?thesis
      unfolding step using False rep by (simp add: acc sendReply_def)
  qed
qed

text \<open>
  C2. For a transaction that passes field validation and whose shard and observers are
  found, \<open>SendTransaction\<close> posts it to the observers of the sender's shard in the order
  of the pool, as long as the replies are skip-class (404 or 408). The first observer whose
  reply is not skip-class ends the call: with \<open>(200, txHash, nil)\<close> when the reply is
  HTTP 200 without a transport error, with the reply's status and error otherwise; no
  later observer is called. When every reply is skip-class, all observers have been called
  and the result is status 500 with \<open>ErrSendingRequest\<close>.
\<close>

theorem SendTransaction_decision_table:
  assumes "checkTransactionFields tp tx = None"
    and "pubKeyConverter tp (Sender tx) = Inr senderBuff"
    and "ComputeShardId (proc tp) senderBuff = Inr shardId"
    and "GetObservers (proc tp) shardId = Inr observers"
  shows "SendTransaction tp tx =
     (case dropWhile (isSkipped tp tx) observers of
        [] \<Rightarrow> ((StatusInternalServerError, '''', Some (Base ErrSendingRequest)),
               map (sendCall tx) observers)
      | observer # later \<Rightarrow>
          (if isAccepted tp tx observer
           then (StatusOK, TxHash (snd (snd (sendReply tp tx observer))), None)
           else (fst (sendReply tp tx observer), '''', fst (snd (sendReply tp tx observer))),
           map (sendCall tx) (takeWhile (isSkipped tp tx) observers @ [observer])))"
  using assms by (simp add: SendTransaction_def sendToObservers_decision)

text \<open>The theorem at scenario S1: \<open>O1\<close> is skipped, \<open>O2\<close> accepts.\<close>

theorem SendTransaction_decision_table_witness:
  "SendTransaction tpSendExample txExample =
     ((200, ''HASH123'', None),
      [(''O1'', ''/transaction/send'', SingleTx txExample), (''O2'', ''/transaction/send'', SingleTx txExample)])"
  using SendTransaction_decision_table [of tpSendExample txExample "[0xDE, 0xAD, 0xBE, 0xEF]" 0
      "[\<lparr>Address = ''O1'', ShardId = 0\<rparr>, \<lparr>Address = ''O2'', ShardId = 0\<rparr>]"]
  by (simp add: tpSendExample_def txExample_def checkTransactionFields_def hexConverter_def
      fromHexChar_def isSkipped_def isAccepted_def sendReply_def sendCall_def emptyResponse_def
      TransactionSendPath_def)


subsection \<open>Field validation and the chain identifier\<close>

text \<open>
  C4. The claim asks that a transaction with an empty \<open>chainID\<close> or a version below 1 is
  rejected with \<open>InvalidTxFields\<close> at status 400 and that no observer is contacted. The
  transaction of scenario S1 with an empty chain identifier and version 0 passes
  \<open>checkTransactionFields\<close>, and \<open>SendTransaction\<close> posts it to both observers and returns
  the hash with status 200.
\<close>

theorem SendTransaction_without_chainID_is_dispatched:
  "checkTransactionFields tpSendExample txNoChainID = None \<and>
   SendTransaction tpSendExample txNoChainID =
     ((200, ''HASH123'', None),
      [(''O1'', ''/transaction/send'', SingleTx txNoChainID),
       (''O2'', ''/transaction/send'', SingleTx txNoChainID)])"
  by (simp add: SendTransaction_def checkTransactionFields_def tpSendExample_def txNoChainID_def
      txExample_def hexConverter_def fromHexChar_def emptyResponse_def TransactionSendPath_def)

text \<open>
  The validation does not read the two fields at all, and the two other write paths
  dispatch the same transaction as well.
\<close>

lemma checkTransactionFields_ignores_chainID_version:
  "checkTransactionFields tp (tx\<lparr>ChainID := c, Version := v\<rparr>) = checkTransactionFields tp tx"
  by (simp add: checkTransactionFields_def split: sum.splits)

lemma SendMultipleTransactions_without_chainID_is_dispatched:
  "SendMultipleTransactions tpSendExample [txNoChainID] =
     ((0, None),
      [(''O1'', ''/transaction/send-multiple'', MultipleTxs [txNoChainID]),
       (''O2'', ''/transaction/send-multiple'', MultipleTxs [txNoChainID])])"
  by (simp add: SendMultipleTransactions_def getTxsByShardId_def checkTransactionFields_def
      tpSendExample_def txNoChainID_def txExample_def hexConverter_def fromHexChar_def
      emptyResponse_def MultipleTransactionsPath_def Let_def)

lemma TransactionCostRequest_without_chainID_is_dispatched:
  "snd (TransactionCostRequest tpSendExample txNoChainID) =
     [(''O1'', ''/transaction/cost'', SingleTx txNoChainID),
      (''O2'', ''/transaction/cost'', SingleTx txNoChainID)]"
  by (simp add: TransactionCostRequest_def checkTransactionFields_def MetachainShardId_def
      tpSendExample_def txNoChainID_def txExample_def hexConverter_def fromHexChar_def
      emptyResponse_def TransactionCostPath_def)

subsection \<open>Sending a batch\<close>

text \<open>
  C3. The claim asks for the pair of the accepted total and the merged map of hashes. At
  scenario S3 (two transactions of shard 0, two of shard 1, each observer answering with
  two hashes) \<open>SendMultipleTransactions\<close> posts one batch to each shard's observer and
  returns the total 4 and no error; the hashes of the replies are not read and are no part
  of what it returns.
\<close>

theorem SendMultipleTransactions_returns_count_only:
  "SendMultipleTransactions tpMultiExample [txShard0, txShard0, txShard1, txShard1] =
     ((4, None),
      [(''observer0'', ''/transaction/send-multiple'', MultipleTxs [txShard0, txShard0]),
       (''observer1'', ''/transaction/send-multiple'', MultipleTxs [txShard1, txShard1])])"
  by (simp add: SendMultipleTransactions_def getTxsByShardId_def checkTransactionFields_def
      tpMultiExample_def txShard0_def txShard1_def hexConverter_def fromHexChar_def hexDigit_def
      emptyResponse_def MultipleTransactionsPath_def)

text \<open>
  The order in which the shards are visited has no influence on what
  \<open>SendMultipleTransactions\<close> returns: a shard without observers gives \<open>ErrMissingObserver\<close>
  wherever it comes, and the total is a sum.
\<close>

lemma sendShards_result:
  "fst (sendShards tp es acc) =
     (if \<exists>e \<in> set es. isl (GetObservers (proc tp) (fst e))
      then (0, Some (Base ErrMissingObserver))
      else (acc + sum_list (map (\<lambda>e. fst (sendBatch tp (snd e) (projr (GetObservers (proc tp) (fst e))))) es),
            None))"
proof (induction es arbitrary: acc)
  case Nil
  show ?case by simp
next
  case (Cons e es)
  obtain s batch where e: "e = (s, batch)" by (cases e)
  show ?case
  proof (cases "GetObservers (proc tp) s")
    case (Inl err)
    with e show ?thesis by simp
  next
    case (Inr obs)
    obtain n calls where b: "sendBatch tp batch obs = (n, calls)" by (cases "sendBatch tp batch obs")
    have "fst (sendShards tp (e # es) acc) = fst (sendShards tp es (acc + n))"
      using e Inr b by (simp split: prod.splits)
    with Cons.IH [of "acc + n"] e Inr b show ?thesis by (simp add: add.assoc)
  qed
qed

lemma sendShards_order_irrelevant:
  assumes "mset es = mset es'"
  shows "fst (sendShards tp es acc) = fst (sendShards tp es' acc)"
proof -
  let ?f = "\<lambda>e. fst (sendBatch tp (snd e) (projr (GetObservers (proc tp) (fst e))))"
  from assms have s: "set es = set es'" by (rule mset_eq_setD)
  from assms have "mset (map ?f es) = mset (map ?f es')" by simp
  then have "sum_mset (mset (map ?f es)) = sum_mset (mset (map ?f es'))" by simp
  then have "sum_list (map ?f es) = sum_list (map ?f es')" by (simp only: sum_mset_sum_list)
  with s show ?thesis by (simp add: sendShards_result)
qed

subsection \<open>Transactions left out of the partition\<close>

lemma mapAppend_values:
  "(\<Union>e \<in> set (mapAppend k v m). set (snd e)) = insert v (\<Union>e \<in> set m. set (snd e))"
proof (induction m)
  case Nil
  show ?case by simp
next
  case (Cons e m)
  obtain k' vs where e: "e = (k', vs)" by (cases e)
  show ?case
  proof (cases "k' = k")
    case True
    with e show ?thesis by auto
  next
    case False
    with e Cons.IH show ?thesis by auto
  qed
qed

lemma txsByShardLoop_values:
  "(\<Union>e \<in> set (txsByShardLoop tp txs m). set (snd e)) \<subseteq>
     (\<Union>e \<in> set m. set (snd e)) \<union> {t \<in> set txs. \<not> unroutable tp t}"
proof (induction txs arbitrary: m)
  case Nil
  show ?case by simp
next
  case (Cons t ts)
  show ?case
  proof (cases "pubKeyConverter tp (Sender t)")
    case (Inl e)
    with Cons.IH [of m] show ?thesis by auto
  next
    case (Inr b)
    show ?thesis
    proof (cases "ComputeShardId (proc tp) b")
      case (Inl e)
      with Inr Cons.IH [of m] show ?thesis by auto
    next
      case r: (Inr s)
      have "\<not> unroutable tp t" using Inr r by (simp add: unroutable_def)
      with Inr r Cons.IH [of "mapAppend s t m"] show ?thesis
        by (auto simp: mapAppend_values)
    qed
  qed
qed

lemma txsByShardLoop_append:
  "txsByShardLoop tp (xs @ ys) m = txsByShardLoop tp ys (txsByShardLoop tp xs m)"
  by (induction xs arbitrary: m) (auto split: sum.splits)

lemma txsByShardLoop_unroutable:
  "unroutable tp tx \<Longrightarrow> txsByShardLoop tp (tx # ys) m = txsByShardLoop tp ys m"
  by (auto simp: unroutable_def split: sum.splits)

lemma validTxs_append: "validTxs tp (xs @ ys) = validTxs tp xs @ validTxs tp ys"
  by (induction xs) (auto split: option.splits)

lemma sendBatch_calls:
  "call \<in> set (snd (sendBatch tp batch observers)) \<Longrightarrow> callTxs call = batch"
  by (induction observers arbitrary: call) (auto simp: callTxs_def split: prod.splits if_splits)

lemma sendShards_calls:
  "call \<in> set (snd (sendShards tp entries acc)) \<Longrightarrow> \<exists>e \<in> set entries. callTxs call = snd e"
proof (induction entries arbitrary: acc call)
  case Nil
  then show ?case by simp
next
  case (Cons e es)
  obtain s batch where e: "e = (s, batch)" by (cases e)
  show ?case
  proof (cases "GetObservers (proc tp) s")
    case (Inl err)
    with Cons.prems e show ?thesis by simp
  next
    case (Inr obs)
    obtain n calls where b: "sendBatch tp batch obs = (n, calls)" by (cases "sendBatch tp batch obs")
    obtain r calls' where r: "sendShards tp es (acc + n) = (r, calls')"
      by (cases "sendShards tp es (acc + n)")
    from Cons.prems e Inr b r have "call \<in> set calls \<or> call \<in> set calls'" by auto
    then show ?thesis
    proof
      assume "call \<in> set calls"
      with b sendBatch_calls [of call tp batch obs] have "callTxs call = batch" by simp
      with e show ?thesis by simp
    next
      assume "call \<in> set calls'"
      with r Cons.IH [of call "acc + n"] show ?thesis by auto
    qed
  qed
qed

text \<open>
  C9. A transaction passes field validation, but its sender does not decode when the
  batch is partitioned or the shard of the sender cannot be computed. Then it is in no
  entry of the partition by shard, it is in no batch posted to an observer, and the call
  returns what it returns without that transaction: the same total, the same error if
  any, the same upstream calls (and the total 0 without an error and without a call when
  no other transaction is valid).
\<close>

theorem unroutable_transaction_is_omitted:
  assumes "checkTransactionFields tp tx = None"
    and "unroutable tp tx"
  shows "(\<forall>entry \<in> set (getTxsByShardId tp (validTxs tp txs)). tx \<notin> set (snd entry))
       \<and> (\<forall>call \<in> set (snd (SendMultipleTransactions tp txs)). tx \<notin> set (callTxs call))
       \<and> SendMultipleTransactions tp (before @ tx # after) =
           (if validTxs tp (before @ after) = [] then ((0, None), [])
            else SendMultipleTransactions tp (before @ after))"
proof -
  have part: "\<And>l. \<forall>entry \<in> set (getTxsByShardId tp l). tx \<notin> set (snd entry)"
    using txsByShardLoop_values [of tp _ "[]"] assms(2)
    by (fastforce simp: getTxsByShardId_def)
  have calls: "\<forall>call \<in> set (snd (SendMultipleTransactions tp txs)). tx \<notin> set (callTxs call)"
  proof
    fix call assume c: "call \<in> set (snd (SendMultipleTransactions tp txs))"
    show "tx \<notin> set (callTxs call)"
    proof (cases "validTxs tp txs = []")
      case True
      with c show ?thesis by (simp add: SendMultipleTransactions_def)
    next
      case False
      with c have "call \<in> set (snd (sendShards tp (getTxsByShardId tp (validTxs tp txs)) 0))"
        by (simp add: SendMultipleTransactions_def)
      from sendShards_calls [OF this] part [of "validTxs tp txs"] show ?thesis by fastforce
    qed
  qed
  have v: "validTxs tp (before @ tx # after) = validTxs tp before @ tx # validTxs tp after"
    using assms(1) by (simp add: validTxs_append)
  have g: "getTxsByShardId tp (validTxs tp (before @ tx # after)) =
           getTxsByShardId tp (validTxs tp (before @ after))"
    unfolding v using assms(2)
    by (simp add: validTxs_append getTxsByShardId_def txsByShardLoop_append
        txsByShardLoop_unroutable del: txsByShardLoop.simps)
  have e: "validTxs tp (before @ after) = [] \<Longrightarrow> getTxsByShardId tp (validTxs tp (before @ after)) = []"
    by (simp add: getTxsByShardId_def)
  have res: "SendMultipleTransactions tp (before @ tx # after) =
           (if validTxs tp (before @ after) = [] then ((0, None), [])
            else SendMultipleTransactions tp (before @ after))"
  proof (cases "validTxs tp (before @ after) = []")
    case True
    have "SendMultipleTransactions tp (before @ tx # after) =
        sendShards tp (getTxsByShardId tp (validTxs tp (before @ tx # after))) 0"
      by (simp add: SendMultipleTransactions_def v)
    also have "\<dots> = ((0, None), [])" unfolding g using e [OF True] by simp
    finally show ?thesis using True by simp
  next
    case False
    have "SendMultipleTransactions tp (before @ tx # after) =
        sendShards tp (getTxsByShardId tp (validTxs tp (before @ tx # after))) 0"
      by (simp add: SendMultipleTransactions_def v)
    also have "\<dots> = SendMultipleTransactions tp (before @ after)"
      unfolding g using False by (simp add: SendMultipleTransactions_def)
    finally show ?thesis using False by simp
  qed
  from part calls res show ?thesis by blast
qed

text \<open>
  The theorem at a batch of three transactions whose second one has a sender the shard
  router fails on: the two others are posted to shard 0, the total is 2.
\<close>

theorem unroutable_transaction_is_omitted_witness:
  "SendMultipleTransactions tpRouterFails ([txShard0] @ txShard1 # [txShard0]) =
     ((2, None),
      [(''observer0'', ''/transaction/send-multiple'', MultipleTxs [txShard0, txShard0])])"
  using unroutable_transaction_is_omitted [of tpRouterFails txShard1 "[]" "[txShard0]" "[txShard0]"]
  by (simp add: SendMultipleTransactions_def getTxsByShardId_def checkTransactionFields_def
      tpRouterFails_def unroutable_def
      tpMultiExample_def txShard0_def txShard1_def hexConverter_def fromHexChar_def hexDigit_def
      emptyResponse_def MultipleTransactionsPath_def)

subsection \<open>The status of a transaction\<close>

lemma look_mapAppend:
  "look (mapAppend k v m) s = (if s = k then look m k @ [v] else look m s)"
  by (induction m) (auto simp: look_def)

lemma map_fst_mapAppend:
  "map fst (mapAppend k v m) = (if k \<in> fst ` set m then map fst m else map fst m @ [k])"
proof (induction m)
  case Nil
  show ?case by simp
next
  case (Cons e m)
  obtain k' vs where e: "e = (k', vs)" by (cases e)
  show ?case
  proof (cases "k' = k")
    case True
    with e show ?thesis by simp
  next
    case False
    with e Cons.IH show ?thesis by (simp split: if_splits)
  qed
qed

lemma keys_mapAppend: "fst ` set (mapAppend k v m) = insert k (fst ` set m)"
  using arg_cong [OF map_fst_mapAppend [of k v m], of set] by (auto split: if_splits)

lemma distinct_mapAppend:
  "distinct (map fst m) \<Longrightarrow> distinct (map fst (mapAppend k v m))"
  by (simp add: map_fst_mapAppend)

lemma nonempty_mapAppend:
  "[] \<notin> snd ` set m \<Longrightarrow> [] \<notin> snd ` set (mapAppend k v m)"
proof (induction m)
  case Nil
  show ?case by simp
next
  case (Cons e m)
  obtain k' vs where e: "e = (k', vs)" by (cases e)
  show ?case
  proof (cases "k' = k")
    case True
    with e Cons.prems show ?thesis by simp
  next
    case False
    with e Cons show ?thesis by simp
  qed
qed

lemma wellFormed_mapAppend: "wellFormed m \<Longrightarrow> wellFormed (mapAppend k v m)"
  by (simp add: wellFormed_def distinct_mapAppend nonempty_mapAppend)

lemma wellFormed_keys: "wellFormed m \<Longrightarrow> fst ` set m = {k. look m k \<noteq> []}"
proof (induction m)
  case Nil
  show ?case by (simp add: look_def)
next
  case (Cons e m)
  obtain k vs where e: "e = (k, vs)" by (cases e)
  from Cons.prems e have w: "wellFormed m" and nk: "k \<notin> fst ` set m" and ne: "vs \<noteq> []"
    by (auto simp: wellFormed_def)
  have "\<And>t. look (e # m) t = (if t = k then vs else look m t)"
    using e by (simp add: look_def)
  then show ?case using Cons.IH [OF w] e ne nk by auto
qed

lemma look_mapAppend_same: "look (mapAppend k v m) k = look m k @ [v]"
  by (simp add: look_mapAppend)

lemma look_mapAppend_other: "s \<noteq> k \<Longrightarrow> look (mapAppend k v m) s = look m s"
  by (simp add: look_mapAppend)

lemma wellFormed_keepKnown: "wellFormed ok \<Longrightarrow> wellFormed (keepKnown s rs ok)"
  by (induction rs arbitrary: ok) (simp_all add: wellFormed_mapAppend)

lemma look_keepKnown_same:
  "look (keepKnown s rs ok) s = look ok s @ filter (\<lambda>r. r \<noteq> UnknownStatusTx) rs"
  by (induction rs arbitrary: ok) (simp_all add: look_mapAppend_same)

lemma look_keepKnown_other:
  "t \<noteq> s \<Longrightarrow> look (keepKnown s rs ok) t = look ok t"
  by (induction rs arbitrary: ok) (simp_all add: look_mapAppend_other)

lemma wellFormed_keepKnownAll: "wellFormed ok \<Longrightarrow> wellFormed (keepKnownAll m ok)"
  by (induction m arbitrary: ok) (auto simp: wellFormed_keepKnown)

text \<open>Reading the first status of an entry never panics, whatever the responses are.\<close>

lemma parseTxStatusResponses_returns: "parseTxStatusResponses allResponses \<noteq> None"
proof -
  have w: "wellFormed (keepKnownAll allResponses [])"
    by (rule wellFormed_keepKnownAll) (simp add: wellFormed_def)
  show ?thesis
  proof (cases "keepKnownAll allResponses []")
    case Nil
    then show ?thesis by (simp add: parseTxStatusResponses_def)
  next
    case (Cons e rest)
    obtain s rs where e: "e = (s, rs)" by (cases e)
    from w Cons e have "rs \<noteq> []" by (auto simp: wellFormed_def)
    then obtain r rs' where "rs = r # rs'" by (cases rs) auto
    with Cons e show ?thesis by (simp add: parseTxStatusResponses_def Let_def)
  qed
qed


lemma look_absent: "k \<notin> fst ` set m \<Longrightarrow> look m k = []"
  by (simp add: look_def map_of_eq_None_iff [THEN iffD2])

lemma look_keepKnownAll:
  "distinct (map fst m) \<Longrightarrow>
   look (keepKnownAll m ok) t = look ok t @ filter (\<lambda>r. r \<noteq> UnknownStatusTx) (look m t)"
proof (induction m arbitrary: ok)
  case Nil
  show ?case by (simp add: look_def)
next
  case (Cons e m)
  obtain s rs where e: "e = (s, rs)" by (cases e)
  from Cons.prems e have d: "distinct (map fst m)" and ns: "s \<notin> fst ` set m" by auto
  have IH: "look (keepKnownAll m (keepKnown s rs ok)) t =
      look (keepKnown s rs ok) t @ filter (\<lambda>r. r \<noteq> UnknownStatusTx) (look m t)"
    by (rule Cons.IH [OF d])
  show ?case
  proof (cases "t = s")
    case True
    have "look ((s, rs) # m) s = rs" by (simp add: look_def)
    then show ?thesis
      unfolding e using IH True look_absent [OF ns] by (simp add: look_keepKnown_same)
  next
    case False
    then have "look ((s, rs) # m) t = look m t" by (simp add: look_def)
    then show ?thesis
      unfolding e using IH False by (simp add: look_keepKnown_other)
  qed
qed

lemma collectStatuses_calls:
  "snd (collectStatuses tp h obs m) =
     map (\<lambda>ob. (Address ob, TransactionPath @ h @ ''/status'')) obs"
  by (induction obs arbitrary: m) (simp_all add: case_prod_beta)

lemma wellFormed_collectStatuses: "wellFormed m \<Longrightarrow> wellFormed (fst (collectStatuses tp h obs m))"
  by (induction obs arbitrary: m) (simp_all add: case_prod_beta wellFormed_mapAppend)

lemma look_collectStatuses:
  "look (fst (collectStatuses tp h obs m)) t =
     look m t @ map snd (filter (\<lambda>r. fst r = t) (respondedStatuses tp h obs))"
  by (induction obs arbitrary: m) (simp_all add: case_prod_beta look_mapAppend)

lemma single_key:
  assumes "distinct (map fst m)" and "fst ` set m = {s}"
  shows "m = [(s, look m s)]"
proof (cases m)
  case Nil
  with assms(2) show ?thesis by simp
next
  case (Cons e m')
  obtain k vs where e: "e = (k, vs)" by (cases e)
  from assms(2) Cons e have k: "k = s" by auto
  from assms(1) Cons e have "k \<notin> fst ` set m'" by auto
  moreover from assms(2) Cons have "fst ` set m' \<subseteq> {s}" by auto
  ultimately have "m' = []" using k by (cases m') auto
  with Cons e k show ?thesis by (simp add: look_def)
qed

lemma two_keys:
  assumes "a \<in> fst ` set m" and "b \<in> fst ` set m" and "a \<noteq> b"
  shows "length m > 1"
proof (cases m)
  case Nil
  with assms(1) show ?thesis by simp
next
  case (Cons e m')
  show ?thesis
  proof (cases m')
    case Nil
    with Cons assms show ?thesis by auto
  next
    case (Cons e' m'')
    with \<open>m = e # m'\<close> show ?thesis by simp
  qed
qed

lemma reconcile:
  assumes w: "wellFormed ok"
    and l: "\<And>t. look ok t = map snd (filter (\<lambda>r. fst r = t) K)"
  shows "(if length ok > 1 then Some ('''', Some (Base ErrCannotGetTransactionStatus))
          else (case ok of
                  [] \<Rightarrow> Some (UnknownStatusTx, None)
                | (shardID, responses) # rest \<Rightarrow>
                    (case responses of
                       [] \<Rightarrow> None
                     | firstOkResponse # others \<Rightarrow>
                         if list_all (\<lambda>response. firstOkResponse = response) responses
                         then Some (firstOkResponse, None)
                         else Some ('''', Some (Base ErrCannotGetTransactionStatus)))))
       = Some (case K of
                 [] \<Rightarrow> (UnknownStatusTx, None)
               | first # others \<Rightarrow>
                   if list_all (\<lambda>r. fst r = fst first \<and> snd r = snd first) others
                   then (snd first, None)
                   else ('''', Some (Base ErrCannotGetTransactionStatus)))"
proof (cases K)
  case Nil
  with l have "\<And>t. look ok t = []" by simp
  with wellFormed_keys [OF w] have "fst ` set ok = {}" by simp
  then have "ok = []" by simp
  with Nil show ?thesis by simp
next
  case (Cons first others)
  obtain s st where f: "first = (s, st)" by (cases first)
  have ls: "look ok s = st # map snd (filter (\<lambda>r. fst r = s) others)"
    using l [of s] Cons f by simp
  then have sk: "s \<in> fst ` set ok" using wellFormed_keys [OF w] by simp
  show ?thesis
  proof (cases "list_all (\<lambda>r. fst r = s) others")
    case True
    then have fo: "filter (\<lambda>r. fst r = s) others = others"
      by (simp add: list_all_iff)
    have "\<And>t. t \<noteq> s \<Longrightarrow> look ok t = []"
    proof -
      fix t assume "t \<noteq> s"
      with True have "filter (\<lambda>r. fst r = t) others = []"
        by (auto simp: list_all_iff filter_empty_conv)
      with l [of t] Cons f \<open>t \<noteq> s\<close> show "look ok t = []" by simp
    qed
    with sk wellFormed_keys [OF w] have "fst ` set ok = {s}" by auto
    with w have ok: "ok = [(s, st # map snd others)]"
      using single_key [of ok s] ls fo by (simp add: wellFormed_def)
    have "list_all (\<lambda>response. st = response) (map snd others)
          = list_all (\<lambda>r. fst r = s \<and> snd r = st) others"
      using True by (auto simp: list_all_iff)
    then show ?thesis unfolding ok Cons f by simp
  next
    case False
    then obtain r where r: "r \<in> set others" "fst r \<noteq> s"
      by (auto simp: list_all_iff)
    then have "look ok (fst r) \<noteq> []"
      using l [of "fst r"] Cons f by (auto simp: filter_empty_conv)
    then have "fst r \<in> fst ` set ok" using wellFormed_keys [OF w] by simp
    with sk r(2) have "length ok > 1" using two_keys [of s ok "fst r"] by auto
    moreover from r have "\<not> list_all (\<lambda>r. fst r = s \<and> snd r = st) others"
      by (auto simp: list_all_iff)
    ultimately show ?thesis using Cons f by simp
  qed
qed

text \<open>
  C1, as the code has it. \<open>GetTransactionStatus\<close> takes the hash of the transaction only.
  It asks every observer of the pool, in order, and keeps the statuses other than
  \<open>unknown\<close> of those that answer without an error. If none is left, it returns \<open>unknown\<close>.
  If all that are left come from one shard and are the same status, it returns that
  status. In every other case (two or more shards report a status other than \<open>unknown\<close>,
  whether the same or not, or one shard reports two different ones) it returns
  \<open>ErrCannotGetTransactionStatus\<close>. It never panics.
\<close>

theorem GetTransactionStatus_reconciliation:
  "GetTransactionStatus tp txHash =
     (Some (case knownStatuses tp txHash of
              [] \<Rightarrow> (UnknownStatusTx, None)
            | first # others \<Rightarrow>
                if list_all (\<lambda>r. fst r = fst first \<and> snd r = snd first) others
                then (snd first, None)
                else ('''', Some (Base ErrCannotGetTransactionStatus))),
      map (\<lambda>observer. (Address observer, TransactionPath @ txHash @ ''/status''))
        (GetAllObservers (proc tp)))"
proof -
  let ?obs = "GetAllObservers (proc tp)"
  let ?m = "fst (collectStatuses tp txHash ?obs [])"
  let ?ok = "keepKnownAll ?m []"
  have wm: "wellFormed ?m" by (rule wellFormed_collectStatuses) (simp add: wellFormed_def)
  have wo: "wellFormed ?ok" by (rule wellFormed_keepKnownAll) (simp add: wellFormed_def)
  have l: "\<And>t. look ?ok t = map snd (filter (\<lambda>r. fst r = t) (knownStatuses tp txHash))"
  proof -
    fix t
    have d: "distinct (map fst ?m)" using wm by (simp add: wellFormed_def)
    have n: "look ([] :: (shard \<times> string list) list) t = []" by (simp add: look_def)
    have "look ?ok t = filter (\<lambda>r. r \<noteq> UnknownStatusTx) (look ?m t)"
      by (simp add: look_keepKnownAll [OF d] n)
    also have "look ?m t = map snd (filter (\<lambda>r. fst r = t) (respondedStatuses tp txHash ?obs))"
      by (simp add: look_collectStatuses n)
    finally show "look ?ok t = map snd (filter (\<lambda>r. fst r = t) (knownStatuses tp txHash))"
      by (simp add: knownStatuses_def filter_map comp_def conj_commute)
  qed
  have "parseTxStatusResponses ?m =
      Some (case knownStatuses tp txHash of
              [] \<Rightarrow> (UnknownStatusTx, None)
            | first # others \<Rightarrow>
                if list_all (\<lambda>r. fst r = fst first \<and> snd r = snd first) others
                then (snd first, None)
                else ('''', Some (Base ErrCannotGetTransactionStatus)))"
    unfolding parseTxStatusResponses_def Let_def by (rule reconcile [OF wo l])
  then show ?thesis
    by (simp add: GetTransactionStatus_def case_prod_beta collectStatuses_calls)
qed

text \<open>
  C1 as stated fails where the upstreams of two shards agree: both observers report
  \<open>executed\<close>, and the result is the error, not \<open>executed\<close>.
\<close>

theorem GetTransactionStatus_agreeing_shards_counterexample:
  "knownStatuses tpStatusAgree ''hash0'' = [(0, ''executed''), (1, ''executed'')] \<and>
   fst (GetTransactionStatus tpStatusAgree ''hash0'') =
     Some ('''', Some (Base ErrCannotGetTransactionStatus))"
  by (simp add: GetTransactionStatus_def parseTxStatusResponses_def knownStatuses_def
      tpStatusAgree_def emptyResponse_def UnknownStatusTx_def TransactionPath_def)

text \<open>The theorem at the same two observers.\<close>

theorem GetTransactionStatus_reconciliation_witness:
  "GetTransactionStatus tpStatusAgree ''hash0'' =
     (Some ('''', Some (Base ErrCannotGetTransactionStatus)),
      [(''observer0'', ''/transaction/hash0/status''), (''observer1'', ''/transaction/hash0/status'')])"
  using GetTransactionStatus_reconciliation [of tpStatusAgree "''hash0''"]
  by (simp add: knownStatuses_def tpStatusAgree_def emptyResponse_def UnknownStatusTx_def
      TransactionPath_def)

section \<open>Properties of the mempool views\<close>

text \<open>
  C7. With the mempool feature flag disabled, each of the five mempool entry points
  returns \<open>OperationNotAllowed\<close> and makes no upstream call.
\<close>

theorem mempool_disabled_no_upstream_call:
  assumes "\<not> mempoolApiEnabled mp"
  shows "GetTransactionsPool mp fieldNames = (Inl OperationNotAllowed, [])
       \<and> GetTransactionsPoolForShard mp shardID fieldNames = (Inl OperationNotAllowed, [])
       \<and> GetTransactionsPoolForSender mp sender fieldNames = (Inl OperationNotAllowed, [])
       \<and> GetLastPoolNonceForSender mp sender = (Inl OperationNotAllowed, [])
       \<and> GetTransactionsPoolNonceGapsForSender mp sender = (Inl OperationNotAllowed, [])"
  using assms
  by (simp add: GetTransactionsPool_def GetTransactionsPoolForShard_def
      GetTransactionsPoolForSender_def GetLastPoolNonceForSender_def
      GetTransactionsPoolNonceGapsForSender_def)

text \<open>The theorem at the example processor with the flag off.\<close>

theorem mempool_disabled_no_upstream_call_witness:
  "GetTransactionsPool (mempoolExample False) ''hash'' = (Inl OperationNotAllowed, [])
   \<and> GetTransactionsPoolForShard (mempoolExample False) 1 ''hash'' = (Inl OperationNotAllowed, [])
   \<and> GetTransactionsPoolForSender (mempoolExample False) ''aabb'' ''hash'' = (Inl OperationNotAllowed, [])
   \<and> GetLastPoolNonceForSender (mempoolExample False) ''aabb'' = (Inl OperationNotAllowed, [])
   \<and> GetTransactionsPoolNonceGapsForSender (mempoolExample False) ''aabb'' = (Inl OperationNotAllowed, [])"
  using mempool_disabled_no_upstream_call [of "mempoolExample False" "''hash''" 1 "''aabb''"]
  by (simp add: mempoolExample_def)

text \<open>With the flag on, the same processor does query its observers.\<close>

lemma mempool_enabled_calls_upstream:
  "GetTransactionsPool (mempoolExample True) ''hash'' =
     (Inr \<lparr>RegularTransactions = [[(''hash'', ''observer0'')], [(''hash'', ''observer1'')]],
           SmartContractResults = [], Rewards = []\<rparr>,
      [(''observer0'', ''/transaction/pool?fields=hash''),
       (''observer1'', ''/transaction/pool?fields=hash'')])"
  by (simp add: GetTransactionsPool_def mempoolExample_def poolPath_def emptyPool_def
      concatPools_def isEmptyPool_def)

section \<open>Properties of the merge of contract results\<close>

lemma hashes_addScResult:
  "set (map scrHash (addScResult merged r)) = insert (scrHash r) (set (map scrHash merged))"
  by (auto simp: addScResult_def)

lemma distinct_addScResult:
  "distinct (map scrHash merged) \<Longrightarrow> distinct (map scrHash (addScResult merged r))"
  by (auto simp: addScResult_def)

lemma set_addScResult: "set (addScResult merged r) \<subseteq> insert r (set merged)"
  by (auto simp: addScResult_def)

lemma foldl_addScResult_hashes:
  "set (map scrHash (foldl addScResult merged rs)) =
     set (map scrHash merged) \<union> set (map scrHash rs)"
  by (induction rs arbitrary: merged) (auto simp: hashes_addScResult simp del: set_map)

lemma foldl_addScResult_distinct:
  "distinct (map scrHash merged) \<Longrightarrow> distinct (map scrHash (foldl addScResult merged rs))"
  by (induction rs arbitrary: merged) (auto simp: distinct_addScResult)

lemma foldl_addScResult_subset:
  "set (foldl addScResult merged rs) \<subseteq> set merged \<union> set rs"
proof (induction rs arbitrary: merged)
  case Nil
  show ?case by simp
next
  case (Cons r rs)
  from Cons.IH [of "addScResult merged r"] set_addScResult [of merged r]
  show ?case by auto
qed

lemma hashes_mergeScResults:
  "set (map scrHash (mergeScResults first second)) =
     set (map scrHash first) \<union> set (map scrHash second)"
  unfolding mergeScResults_def foldl_addScResult_hashes by auto

lemma distinct_mergeScResults: "distinct (map scrHash (mergeScResults first second))"
  unfolding mergeScResults_def by (rule foldl_addScResult_distinct) simp

lemma set_mergeScResults:
  assumes "inj_on scrHash (set first \<union> set second)"
  shows "set (mergeScResults first second) = set first \<union> set second"
proof
  show "set (mergeScResults first second) \<subseteq> set first \<union> set second"
    unfolding mergeScResults_def using foldl_addScResult_subset [of "[]" "first @ second"] by simp
next
  show "set first \<union> set second \<subseteq> set (mergeScResults first second)"
  proof
    fix r assume r: "r \<in> set first \<union> set second"
    then have "scrHash r \<in> set (map scrHash (mergeScResults first second))"
      unfolding hashes_mergeScResults by auto
    then obtain r' where r': "r' \<in> set (mergeScResults first second)" "scrHash r' = scrHash r"
      by auto
    from r'(1) have "r' \<in> set first \<union> set second"
      unfolding mergeScResults_def using foldl_addScResult_subset [of "[]" "first @ second"] by auto
    with assms r r'(2) have "r' = r" by (auto dest: inj_onD)
    with r'(1) show "r \<in> set (mergeScResults first second)" by simp
  qed
qed

text \<open>
  C5. The merge of the contract results of two shards is a union keyed by hash: the hashes
  of the merged sequence are those of the first sequence and those of the second; merging
  in the other order gives the same hashes; no hash occurs twice in the merged sequence;
  and where a hash identifies a result (results of the two sequences with the same hash
  are the same result), the two orders give the same results, each exactly once.
\<close>

theorem mergeScResults_union_by_hash:
  "set (map scrHash (mergeScResults first second)) = set (map scrHash first) \<union> set (map scrHash second)
   \<and> set (map scrHash (mergeScResults first second)) = set (map scrHash (mergeScResults second first))
   \<and> distinct (map scrHash (mergeScResults first second))
   \<and> (inj_on scrHash (set first \<union> set second) \<longrightarrow>
        mset (mergeScResults first second) = mset (mergeScResults second first))"
proof -
  have d: "\<And>a b. distinct (mergeScResults a b)"
    using distinct_mergeScResults by (simp add: distinct_map)
  have "inj_on scrHash (set first \<union> set second) \<Longrightarrow>
        mset (mergeScResults first second) = mset (mergeScResults second first)"
  proof -
    assume i: "inj_on scrHash (set first \<union> set second)"
    then have i': "inj_on scrHash (set second \<union> set first)" by (simp add: Un_commute)
    have "set (mergeScResults first second) = set (mergeScResults second first)"
      unfolding set_mergeScResults [OF i] set_mergeScResults [OF i'] by auto
    with d show ?thesis by (simp add: set_eq_iff_mset_eq_distinct [symmetric])
  qed
  then show ?thesis
    using hashes_mergeScResults [of first second] hashes_mergeScResults [of second first]
      distinct_mergeScResults [of first second]
    by (auto simp del: set_map)
qed

text \<open>
  The theorem at the sequences of the test: \<open>scHash1, scHash2\<close> from the destination
  shard and \<open>scHash2, scHash3\<close> from the source shard merge to three results.
\<close>

theorem mergeScResults_union_by_hash_witness:
  "map scrHash (mergeScResults [scrWithHash ''scHash1'', scrWithHash ''scHash2'']
                               [scrWithHash ''scHash2'', scrWithHash ''scHash3''])
     = [''scHash1'', ''scHash2'', ''scHash3'']
   \<and> mset (mergeScResults [scrWithHash ''scHash1'', scrWithHash ''scHash2'']
                           [scrWithHash ''scHash2'', scrWithHash ''scHash3''])
     = mset (mergeScResults [scrWithHash ''scHash2'', scrWithHash ''scHash3'']
                            [scrWithHash ''scHash1'', scrWithHash ''scHash2''])"
  using mergeScResults_union_by_hash [of "[scrWithHash ''scHash1'', scrWithHash ''scHash2'']"
      "[scrWithHash ''scHash2'', scrWithHash ''scHash3'']"]
  by (simp add: mergeScResults_def addScResult_def scrWithHash_def)

section \<open>Properties of the outcome parser\<close>

lemma splitOn_no_sep: "c \<notin> set p \<Longrightarrow> splitOn c p = [p]"
  by (induction p) auto

lemma splitOn_append:
  "c \<notin> set p \<Longrightarrow> splitOn c (p @ c # rest) = p # splitOn c rest"
  by (induction p) auto

lemma splitOn_joinWith:
  "\<forall>p \<in> set (q # ps). c \<notin> set p \<Longrightarrow> splitOn c (joinWith c (q # ps)) = q # ps"
proof (induction ps arbitrary: q)
  case Nil
  then show ?case by (simp add: splitOn_no_sep)
next
  case (Cons r rs)
  then show ?case by (simp add: splitOn_append)
qed

text \<open>
  C6, with the precedence of the rules. No contract result carries return data (rule 1
  does not match), and \<open>ev\<close> is the first event of the logs with the identifier
  \<open>signalError\<close>; it has a first topic, and its data is \<open>@\<close>, a status token and further
  chunks, separated by \<open>@\<close>. Then the outcome has the return code \<open>UserError\<close>, the first
  topic read as bytes as its message, and the chunks after the status token as its values.
\<close>

theorem signal_error_outcome:
  assumes "onEasilyFoundResultWithReturnData (ResultScResults tx) = None"
    and "find (\<lambda>e. Identifier e = ''signalError'') (LogsEvents tx) = Some ev"
    and "Topics ev = topic # topics"
    and "EventData ev = CHR ''@'' # joinWith CHR ''@'' (token # chunks)"
    and "\<forall>p \<in> set (token # chunks). CHR ''@'' \<notin> set p"
  shows "ParseResultOutcome b64 tx =
           Some \<lparr>ReturnCode = UserError, ReturnMessage = topicBytes b64 topic, Values = chunks\<rparr>"
proof -
  have "dataValues (EventData ev) = chunks"
    using assms(4) splitOn_joinWith [OF assms(5)]
    by (simp add: dataValues_def dataParts_def)
  then show ?thesis
    using assms(1,2,3) by (simp add: ParseResultOutcome_def onSignalError_def)
qed

text \<open>
  The theorem at scenario S8: the status token \<open>75736572206572726f72\<close> is left out, the
  value is \<open>07\<close>.
\<close>

theorem signal_error_outcome_witness:
  "ParseResultOutcome (\<lambda>t. None) signalErrorResult =
     Some \<lparr>ReturnCode = UserError, ReturnMessage = ''something happened'', Values = [''07'']\<rparr>"
  using signal_error_outcome [of signalErrorResult signalErrorEvent "''something happened''" "[]"
      "''75736572206572726f72''" "[''07'']" "\<lambda>t. None"]
  by (simp add: signalErrorResult_def signalErrorEvent_def topicBytes_def)

text \<open>
  C6 as stated, for every transaction whose logs hold a \<open>signalError\<close> event, fails where
  a contract result carries return data as well: rule 1 comes first, and the outcome is
  the one of the contract result (\<open>Ok\<close>, \<open>foobar\<close>, \<open>03\<close>), not \<open>UserError\<close> with the topic
  and the value \<open>07\<close> of the event.
\<close>

theorem signal_error_after_return_data_counterexample:
  "ParseResultOutcome (\<lambda>t. None)
     \<lparr>ResultScResults = [(scrWithHash [])\<lparr>scrNonce := 42, scrData := ''@6f6b@03'',
                                             scrReturnMessage := ''foobar''\<rparr>],
      LogsEvents = [signalErrorEvent], ResultSender = []\<rparr>
   = Some \<lparr>ReturnCode = Ok, ReturnMessage = ''foobar'', Values = [''03'']\<rparr>"
proof -
  have "bytesToString [0x6f, 0x6b] = ''ok''"
    by code_simp
  then show ?thesis
    by (simp add: ParseResultOutcome_def returnDataOf_def dataParts_def scrWithHash_def
        fromHexChar_def returnCodeOf_def)
qed

text \<open>The other three cases of the parser's test, with the rules that decide them.\<close>

lemma easily_found_result_example:
  "ParseResultOutcome (\<lambda>t. None)
     \<lparr>ResultScResults = [(scrWithHash [])\<lparr>scrNonce := 42, scrData := ''@6f6b@03'',
                                             scrReturnMessage := ''foobar''\<rparr>],
      LogsEvents = [], ResultSender = []\<rparr>
   = Some \<lparr>ReturnCode = Ok, ReturnMessage = ''foobar'', Values = [''03'']\<rparr>"
proof -
  have "bytesToString [0x6f, 0x6b] = ''ok''"
    by code_simp
  then show ?thesis
    by (simp add: ParseResultOutcome_def returnDataOf_def dataParts_def scrWithHash_def
        fromHexChar_def returnCodeOf_def)
qed

lemma too_much_gas_example:
  "ParseResultOutcome (\<lambda>t. None)
     \<lparr>ResultScResults = [],
      LogsEvents = [\<lparr>Identifier = ''writeLog'',
                      Topics = [''@too much gas provided for processing: gas provided = 596384500, gas used = 733010''],
                      EventData = ''@6f6b''\<rparr>],
      ResultSender = []\<rparr>
   = Some \<lparr>ReturnCode = Ok,
            ReturnMessage = ''@too much gas provided for processing: gas provided = 596384500, gas used = 733010'',
            Values = []\<rparr>"
  by (simp add: ParseResultOutcome_def onSignalError_def onWriteLogWhereFirstTopicEqualsAddress_def
      firstTopicIs_def onTooMuchGasWarning_def gasWarningOf_def isTooMuchGasWarning_def
      tooMuchGasPrefix_def topicBytes_def)

end
